theory Spec2Isabelle
  imports Main "HOL-Library.AList" "HOL-Library.Char_ord"
begin

section \<open>Pineapple OFC front end: the round placement logic\<close>

text \<open>
  The repository holds three versions of the browser front end of the game:
  \<^item> the \<^emph>\<open>rows\<close> version (\<^verbatim>\<open>src/unnamed/part_000\<close>): cards are dragged onto the board rows,
    the pending placements are three index lists \<^verbatim>\<open>boardPlacements\<close>, and on a draw turn the
    one card left in the hand is discarded automatically;
  \<^item> the \<^emph>\<open>zones\<close> version (\<^verbatim>\<open>game.js\<close>, first version): cards are dragged onto labelled zones
    (with a pool to return to), the pending placements are the object \<^verbatim>\<open>assignments\<close>;
  \<^item> the \<^emph>\<open>buttons\<close> version (\<^verbatim>\<open>game.js\<close>, second version): each card has a row picker, the
    pending placements are again the object \<^verbatim>\<open>assignments\<close>.

  Each version is embedded as state-passing functions over a record of its module-level
  variables and of the DOM properties its logic writes (the hint text, the status bar, the
  \<^verbatim>\<open>disabled\<close> flag of the confirm button, the loading overlay). Pure rendering (card
  elements, slots, the game-over table, the score counters, the title of the action area)
  is left out: no function of the placement logic reads it back. The functions of the
  rows version keep their names; those of the zones version carry the suffix \<open>_z\<close>, those
  of the buttons version the suffix \<open>_b\<close>.
\<close>

subsection \<open>Cards, rows, destinations\<close>

datatype card = Card (height: string) (suit: string)

datatype row = Front | Middle | Back

text \<open>The \<^verbatim>\<open>row\<close> field of a submitted placement, and the values of \<^verbatim>\<open>assignments\<close>.\<close>

datatype dest = Row row | Discard

type_synonym placement = "nat \<times> dest"

text \<open>An object \<^verbatim>\<open>{ front: [...], middle: [...], back: [...] }\<close>; \<open>back\<close> is a keyword of Isabelle,
  so the three selectors carry the suffix \<open>_row\<close>.\<close>

datatype 'a rows = Rows (front_row: "'a list") (middle_row: "'a list") (back_row: "'a list")

fun getRow :: "row \<Rightarrow> 'a rows \<Rightarrow> 'a list" where
  "getRow Front b = front_row b"
| "getRow Middle b = middle_row b"
| "getRow Back b = back_row b"

fun setRow :: "row \<Rightarrow> 'a list \<Rightarrow> 'a rows \<Rightarrow> 'a rows" where
  "setRow Front xs (Rows f m b) = Rows xs m b"
| "setRow Middle xs (Rows f m b) = Rows f xs b"
| "setRow Back xs (Rows f m b) = Rows f m xs"

text \<open>\<^verbatim>\<open>const max = row === 'front' ? 3 : 5\<close>\<close>

definition max_row :: "row \<Rightarrow> int" where
  "max_row r = (if r = Front then 3 else 5)"

fun row_name :: "row \<Rightarrow> string" where
  "row_name Front = ''front''"
| "row_name Middle = ''middle''"
| "row_name Back = ''back''"

definition toUpperCase :: "char \<Rightarrow> char" where
  "toUpperCase c =
     (if CHR ''a'' \<le> c \<and> c \<le> CHR ''z'' then char_of (of_char c - (32 :: nat)) else c)"

text \<open>\<^verbatim>\<open>s.charAt(0).toUpperCase() + s.slice(1)\<close>\<close>

definition capitalise :: "string \<Rightarrow> string" where
  "capitalise s = (case s of [] \<Rightarrow> [] | c # cs \<Rightarrow> toUpperCase c # cs)"

text \<open>The decimal text a template literal prints for a natural number.\<close>

fun decimal :: "nat \<Rightarrow> string" where
  "decimal n =
     (if n < 10 then [char_of (48 + n)]
      else decimal (n div 10) @ [char_of (48 + n mod 10)])"

declare decimal.simps [simp del]

subsection \<open>The server's reply\<close>

datatype phase = InitHuman | HumanTurn | GameOver | Unexpected string

text \<open>
  The JSON a call of \<^verbatim>\<open>/api/new_game\<close> or \<^verbatim>\<open>/api/play\<close> answers with. The field
  \<^verbatim>\<open>error\<close> is tested for truthiness: an absent field and the empty string both count
  as no error.
\<close>

record reply =
  error :: "string option"
  game_id :: string
  phase :: phase
  cards :: "card list"
  player_board :: "card rows"
  ai_board :: "card rows"
  ai_goes_first :: bool

definition truthy :: "string option \<Rightarrow> bool" where
  "truthy e = (case e of None \<Rightarrow> False | Some s \<Rightarrow> s \<noteq> [])"

text \<open>
  What \<^verbatim>\<open>await fetch(...)\<close> followed by \<^verbatim>\<open>await resp.json()\<close> gives: an exception
  with its message, or the parsed reply.
\<close>

datatype fetched = Failed string | Replied reply

section \<open>The rows version\<close>

record game =
  gameId :: "string option"
  currentCards :: "card list"
  currentServerBoard :: "card rows option"
  boardPlacements :: "nat rows"
  isInitial :: bool
  isActionMode :: bool
  hint :: string
  confirmDisabled :: bool
  statusText :: string
  statusHidden :: bool
  boardDrop :: bool
  loading :: bool

text \<open>\<^verbatim>\<open>setHint(msg)\<close> writes \<^verbatim>\<open>msg || ''\<close> into the hint element.\<close>

definition setHint :: "string \<Rightarrow> game \<Rightarrow> game" where
  "setHint msg g = g\<lparr>hint := msg\<rparr>"

text \<open>\<^verbatim>\<open>setStatus(msg)\<close>: a falsy message (null, the empty string) hides the bar.\<close>

definition setStatus :: "string \<Rightarrow> game \<Rightarrow> game" where
  "setStatus msg g =
     (if msg \<noteq> [] then g\<lparr>statusText := msg, statusHidden := False\<rparr>
      else g\<lparr>statusHidden := True\<rparr>)"

definition enableBoardDrop :: "game \<Rightarrow> game" where
  "enableBoardDrop g = g\<lparr>boardDrop := True\<rparr>"

definition disableBoardDrop :: "game \<Rightarrow> game" where
  "disableBoardDrop g = g\<lparr>boardDrop := False\<rparr>"

definition placed :: "nat rows \<Rightarrow> nat list" where
  "placed bp = front_row bp @ middle_row bp @ back_row bp"

definition getAllPlacedIndices :: "game \<Rightarrow> nat set" where
  "getAllPlacedIndices g = set (placed (boardPlacements g))"

definition removeFromPlacements :: "nat \<Rightarrow> nat rows \<Rightarrow> nat rows" where
  "removeFromPlacements idx bp =
     Rows (filter (\<lambda>i. i \<noteq> idx) (front_row bp))
          (filter (\<lambda>i. i \<noteq> idx) (middle_row bp))
          (filter (\<lambda>i. i \<noteq> idx) (back_row bp))"

text \<open>
  \<^verbatim>\<open>`Place ${k} more card${k > 1 ? 's' : ''}.`\<close>; the callers print it for \<open>k > 0\<close> only.
\<close>

definition place_more :: "int \<Rightarrow> string" where
  "place_more k =
     ''Place '' @ decimal (nat k) @ '' more card'' @ (if k > 1 then ''s'' else []) @ ''.''"

definition updateConfirmButton :: "game \<Rightarrow> game" where
  "updateConfirmButton g =
     (if \<not> isActionMode g then g\<lparr>confirmDisabled := True\<rparr>
      else
        let bp = boardPlacements g;
            totalPlaced = int (length (front_row bp)) + int (length (middle_row bp))
                          + int (length (back_row bp));
            n = int (length (currentCards g));
            required = (if isInitial g then n else n - 1);
            g1 = g\<lparr>confirmDisabled := (totalPlaced \<noteq> required)\<rparr>;
            unplaced = n - totalPlaced
        in if \<not> isInitial g then
             (if unplaced > 1 then setHint (place_more (required - totalPlaced)) g1
              else if unplaced = 1 then
                setHint ''The last card will be automatically discarded.'' g1
              else setHint [] g1)
           else setHint (if unplaced > 0 then place_more unplaced else []) g1)"

text \<open>
  \<^verbatim>\<open>renderPlayerBoard\<close> only draws, but it can throw: it reads \<^verbatim>\<open>currentServerBoard[row]\<close>
  (a TypeError while the board is still \<^verbatim>\<open>null\<close>) and calls \<^verbatim>\<open>makeCard(currentCards[idx])\<close>
  for every placed index (a TypeError on \<^verbatim>\<open>c.suit\<close> when the index is not one of the hand).
\<close>

definition renderPlayerBoard_throws :: "game \<Rightarrow> bool" where
  "renderPlayerBoard_throws g =
     (currentServerBoard g = None
      \<or> (\<exists>idx \<in> set (placed (boardPlacements g)). \<not> idx < length (currentCards g)))"

text \<open>
  \<^verbatim>\<open>refreshUI\<close>: when drawing the board throws, the handler stops there and the confirm
  button and the hint stay as they were; \<^verbatim>\<open>renderHandArea\<close> only draws.
\<close>

definition refreshUI :: "game \<Rightarrow> game" where
  "refreshUI g = (if renderPlayerBoard_throws g then g else updateConfirmButton g)"

text \<open>
  \<^verbatim>\<open>placeCardOnRow(idx, row)\<close>. The rows are the three drop targets of the board, so
  \<open>row\<close> ranges over \<^typ>\<open>row\<close>; \<open>idx\<close> is whatever number the drop carried. Reading the
  length of a row of a \<^verbatim>\<open>null\<close> board throws before anything is written.
\<close>

definition placeCardOnRow :: "nat \<Rightarrow> row \<Rightarrow> game \<Rightarrow> game" where
  "placeCardOnRow idx r g =
     (case currentServerBoard g of
        None \<Rightarrow> g
      | Some board \<Rightarrow>
          let existing = int (length (getRow r board));
              current = int (length (getRow r (boardPlacements g)))
          in if existing + current \<ge> max_row r then
               setHint (capitalise (row_name r) @ '' row is full.'') g
             else
               let bp = removeFromPlacements idx (boardPlacements g);
                   bp' = setRow r (getRow r bp @ [idx]) bp
               in refreshUI (g\<lparr>boardPlacements := bp'\<rparr>))"

definition returnCardToHand :: "nat \<Rightarrow> game \<Rightarrow> game" where
  "returnCardToHand idx g =
     refreshUI (g\<lparr>boardPlacements := removeFromPlacements idx (boardPlacements g)\<rparr>)"

text \<open>
  \<^verbatim>\<open>applyState(state)\<close>. In the game-over branch \<^verbatim>\<open>refreshUI\<close> draws the placements of
  the last round again; if that throws, the exception leaves \<^verbatim>\<open>applyState\<close>.
\<close>

definition applyState_throws :: "reply \<Rightarrow> game \<Rightarrow> bool" where
  "applyState_throws state g =
     (phase state = GameOver
      \<and> (\<exists>idx \<in> set (placed (boardPlacements g)). \<not> idx < length (currentCards g)))"

definition applyState :: "reply \<Rightarrow> game \<Rightarrow> game" where
  "applyState state g =
     (let g1 = g\<lparr>gameId := Some (game_id state),
                  currentServerBoard := Some (player_board state)\<rparr>
      in if phase state = InitHuman \<or> phase state = HumanTurn then
           let g2 = refreshUI (g1\<lparr>isInitial := (phase state = InitHuman),
                                   isActionMode := True,
                                   currentCards := cards state,
                                   boardPlacements := Rows [] [] []\<rparr>);
               g3 = (if isInitial g2 then
                       setStatus (if ai_goes_first state then ''AI goes first this game.''
                                  else ''You go first this game.'') g2
                     else setStatus [] g2)
           in enableBoardDrop g3
         else if phase state = GameOver then
           let g2 = disableBoardDrop (g1\<lparr>isActionMode := False\<rparr>)
           in if renderPlayerBoard_throws g2 then g2
              else setStatus ''Game over!'' (refreshUI g2)
         else g1)"

text \<open>The list \<^verbatim>\<open>placements\<close> that \<^verbatim>\<open>submitPlay\<close> builds and posts.\<close>

definition placements :: "game \<Rightarrow> placement list" where
  "placements g =
     (let bp = boardPlacements g;
          ps = map (\<lambda>idx. (idx, Row Front)) (front_row bp)
               @ map (\<lambda>idx. (idx, Row Middle)) (middle_row bp)
               @ map (\<lambda>idx. (idx, Row Back)) (back_row bp)
      in if \<not> isInitial g then
           (case find (\<lambda>i. i \<notin> getAllPlacedIndices g) [0..<length (currentCards g)] of
              Some i \<Rightarrow> ps @ [(i, Discard)]
            | None \<Rightarrow> ps)
         else ps)"

text \<open>
  \<^verbatim>\<open>submitPlay()\<close>, with the network as a parameter: \<open>fetchPlay\<close> maps the posted game id
  and placements to what the \<^verbatim>\<open>await\<close>s give. An exception thrown inside \<^verbatim>\<open>applyState\<close>
  is caught by the same \<^verbatim>\<open>catch\<close>; the text of that TypeError is the engine's, the
  parameter \<open>typeErrorMessage\<close>.
\<close>

definition reopen :: "string \<Rightarrow> game \<Rightarrow> game" where
  "reopen msg g = enableBoardDrop ((setStatus msg g)\<lparr>confirmDisabled := False, isActionMode := True\<rparr>)"

definition submitPlay :: "string \<Rightarrow> (string option \<Rightarrow> placement list \<Rightarrow> fetched) \<Rightarrow> game \<Rightarrow> game" where
  "submitPlay typeErrorMessage fetchPlay g =
     (let g1 = disableBoardDrop (g\<lparr>loading := True, confirmDisabled := True, isActionMode := False\<rparr>);
          g2 = (case fetchPlay (gameId g) (placements g) of
                  Failed msg \<Rightarrow> reopen (''Network error: '' @ msg) g1
                | Replied state \<Rightarrow>
                    if truthy (error state) then reopen (''Error: '' @ the (error state)) g1
                    else if applyState_throws state g1 then
                      reopen (''Network error: '' @ typeErrorMessage) (applyState state g1)
                    else applyState state g1)
      in g2\<lparr>loading := False\<rparr>)"

text \<open>The user's gestures on a turn of the rows version, and their effect.\<close>

datatype gesture = PlaceCardOnRow nat row | ReturnCardToHand nat

fun gesture_idx :: "gesture \<Rightarrow> nat" where
  "gesture_idx (PlaceCardOnRow idx r) = idx"
| "gesture_idx (ReturnCardToHand idx) = idx"

fun perform :: "game \<Rightarrow> gesture \<Rightarrow> game" where
  "perform g (PlaceCardOnRow idx r) = placeCardOnRow idx r g"
| "perform g (ReturnCardToHand idx) = returnCardToHand idx g"

definition perform_all :: "gesture list \<Rightarrow> game \<Rightarrow> game" where
  "perform_all gs g = foldl perform g gs"

section \<open>The zones version and the buttons version\<close>

subsection \<open>The object \<^verbatim>\<open>assignments\<close>\<close>

text \<open>
  \<^verbatim>\<open>assignments\<close> is a JavaScript object whose keys are card indices. It is embedded as
  an association list with pairwise distinct keys: \<open>[]\<close> is \<^verbatim>\<open>{}\<close>,
  \<^const>\<open>AList.update\<close> is \<^verbatim>\<open>assignments[idx] = v\<close>, \<^const>\<open>AList.delete\<close> is
  \<^verbatim>\<open>delete assignments[idx]\<close>. An object enumerates its integer keys in ascending order,
  whatever the order they were written in.
\<close>

definition Object_entries :: "(nat \<times> 'v) list \<Rightarrow> (nat \<times> 'v) list" where
  "Object_entries obj = sort_key fst obj"

definition Object_keys :: "(nat \<times> 'v) list \<Rightarrow> nat list" where
  "Object_keys obj = map fst (Object_entries obj)"

definition Object_values :: "(nat \<times> 'v) list \<Rightarrow> 'v list" where
  "Object_values obj = map snd (Object_entries obj)"

text \<open>
  \<^verbatim>\<open>const counts = {}; values.forEach(r => { counts[r] = (counts[r] || 0) + 1; })\<close>,
  read back as \<^verbatim>\<open>counts[r] || 0\<close>.
\<close>

definition counts :: "dest list \<Rightarrow> dest \<Rightarrow> nat" where
  "counts vs = fold (\<lambda>r c. c(r := c r + 1)) vs (\<lambda>r. 0)"

text \<open>
  The state of both versions: \<^verbatim>\<open>gameId\<close>, \<^verbatim>\<open>currentCards\<close>, \<^verbatim>\<open>assignments\<close>, the
  flag of the opening turn (\<^verbatim>\<open>isInitial\<close> in the zones version, \<^verbatim>\<open>isInitialTurn\<close> in
  the buttons version), and the DOM properties written.
\<close>

record game_a =
  gameId_a :: "string option"
  currentCards_a :: "card list"
  assignments :: "(nat \<times> dest) list"
  isInitial_a :: bool
  hint_a :: string
  confirmDisabled_a :: bool
  statusText_a :: string
  statusHidden_a :: bool
  loading_a :: bool

definition setHint_a :: "string \<Rightarrow> game_a \<Rightarrow> game_a" where
  "setHint_a msg g = g\<lparr>hint_a := msg\<rparr>"

definition setStatus_a :: "string \<Rightarrow> game_a \<Rightarrow> game_a" where
  "setStatus_a msg g =
     (if msg \<noteq> [] then g\<lparr>statusText_a := msg, statusHidden_a := False\<rparr>
      else g\<lparr>statusHidden_a := True\<rparr>)"

subsection \<open>The zones version\<close>

definition validateAssignments_z :: "game_a \<Rightarrow> bool \<times> game_a" where
  "validateAssignments_z g =
     (if length (Object_keys (assignments g)) < length (currentCards_a g) then
        (False, setHint_a ''Place all cards before confirming.'' g)
      else
        let c = counts (Object_values (assignments g))
        in if isInitial_a g then
             (if c (Row Front) > 3 then (False, setHint_a ''Front takes at most 3 cards.'' g)
              else (True, setHint_a [] g))
           else
             (if c Discard \<noteq> 1 then (False, setHint_a ''Discard exactly 1 card.'' g)
              else (True, setHint_a [] g)))"

definition updateConfirmButton_z :: "game_a \<Rightarrow> game_a" where
  "updateConfirmButton_z g =
     (let n = length (currentCards_a g);
          done = (length (Object_keys (assignments g)) = n)
      in if done then
           let c = counts (Object_values (assignments g))
           in if isInitial_a g \<and> c (Row Front) > 3 then
                (setHint_a ''Front takes at most 3 cards.'' g)\<lparr>confirmDisabled_a := True\<rparr>
              else if \<not> isInitial_a g \<and> c Discard \<noteq> 1 then
                (setHint_a ''Discard exactly 1 card.'' g)\<lparr>confirmDisabled_a := True\<rparr>
              else (setHint_a [] g)\<lparr>confirmDisabled_a := False\<rparr>
         else g\<lparr>confirmDisabled_a := True\<rparr>)"

text \<open>The zone a card is dropped on: a row, the discard zone, or the pool.\<close>

datatype zone = Zone dest | Pool

text \<open>
  \<^verbatim>\<open>moveCard(idx, toZone)\<close> first looks up the element \<^verbatim>\<open>.hand-card[data-idx="idx"]\<close> and
  returns when there is none. \<^verbatim>\<open>buildDragDropUI\<close> empties the hand area and creates one
  such element for each index of \<^verbatim>\<open>currentCards\<close>, and nothing else creates or removes
  one, so the element exists exactly when \<open>idx\<close> is an index of the hand.
\<close>

definition moveCard :: "nat \<Rightarrow> zone \<Rightarrow> game_a \<Rightarrow> game_a" where
  "moveCard idx toZone g =
     (if \<not> idx < length (currentCards_a g) then g
      else
        updateConfirmButton_z
          (case toZone of
             Pool \<Rightarrow> g\<lparr>assignments := AList.delete idx (assignments g)\<rparr>
           | Zone d \<Rightarrow> g\<lparr>assignments := AList.update idx d (assignments g)\<rparr>))"

definition applyState_z :: "reply \<Rightarrow> game_a \<Rightarrow> game_a" where
  "applyState_z state g =
     (let g1 = g\<lparr>gameId_a := Some (game_id state)\<rparr>
      in if phase state = InitHuman \<or> phase state = HumanTurn then
           let g2 = updateConfirmButton_z
                      (g1\<lparr>isInitial_a := (phase state = InitHuman),
                          currentCards_a := cards state,
                          assignments := []\<rparr>)
           in setStatus_a
                (if isInitial_a g2 then
                   ''Drag your cards into Front, Middle, or Back. Front gets at most 3 cards.''
                 else ''Drag 2 cards into a row and 1 card into Discard.'') g2
         else if phase state = GameOver then setStatus_a ''Game over!'' g1
         else g1)"

definition placements_a :: "game_a \<Rightarrow> placement list" where
  "placements_a g = Object_entries (assignments g)"

definition submitPlay_z :: "(string option \<Rightarrow> placement list \<Rightarrow> fetched) \<Rightarrow> game_a \<Rightarrow> game_a" where
  "submitPlay_z fetchPlay g =
     (case validateAssignments_z g of
        (False, g') \<Rightarrow> g'
      | (True, g') \<Rightarrow>
          let g1 = g'\<lparr>loading_a := True, confirmDisabled_a := True\<rparr>;
              g2 = (case fetchPlay (gameId_a g') (placements_a g') of
                      Failed msg \<Rightarrow>
                        (setStatus_a (''Network error: '' @ msg) g1)\<lparr>confirmDisabled_a := False\<rparr>
                    | Replied state \<Rightarrow>
                        if truthy (error state) then
                          (setStatus_a (''Error: '' @ the (error state)) g1)\<lparr>confirmDisabled_a := False\<rparr>
                        else applyState_z state g1)
          in g2\<lparr>loading_a := False\<rparr>)"

datatype gesture_z = MoveCard nat zone

fun perform_z :: "game_a \<Rightarrow> gesture_z \<Rightarrow> game_a" where
  "perform_z g (MoveCard idx toZone) = moveCard idx toZone g"

definition perform_all_z :: "gesture_z list \<Rightarrow> game_a \<Rightarrow> game_a" where
  "perform_all_z gs g = foldl perform_z g gs"

text \<open>
  On the opening turn \<^verbatim>\<open>buildDragDropUI\<close> builds no discard zone, so no drop can name it.
\<close>

fun opening_gesture_z :: "gesture_z \<Rightarrow> bool" where
  "opening_gesture_z (MoveCard idx toZone) = (toZone \<noteq> Zone Discard)"

subsection \<open>The buttons version\<close>

definition validateAssignments_b :: "game_a \<Rightarrow> bool \<times> game_a" where
  "validateAssignments_b g =
     (let n = length (currentCards_a g)
      in if length (Object_keys (assignments g)) < n then
           (False, setHint_a ''Assign all cards before confirming.'' g)
         else
           let c = counts (Object_values (assignments g))
           in if isInitial_a g then
                (if c (Row Front) > 3 then (False, setHint_a ''Front can hold at most 3 cards.'' g)
                 else (True, setHint_a [] g))
              else
                (if c Discard \<noteq> 1 then (False, setHint_a ''You must discard exactly 1 card.'' g)
                 else (True, setHint_a [] g)))"

definition updateConfirmButton_b :: "game_a \<Rightarrow> game_a" where
  "updateConfirmButton_b g =
     (let n = length (currentCards_a g);
          allSet = (length (Object_keys (assignments g)) = n)
      in if allSet then
           let c = counts (Object_values (assignments g))
           in if isInitial_a g \<and> c (Row Front) > 3 then
                (setHint_a ''Front can hold at most 3 cards.'' g)\<lparr>confirmDisabled_a := True\<rparr>
              else if \<not> isInitial_a g \<and> c Discard \<noteq> 1 then
                (setHint_a ''Discard exactly 1 card.'' g)\<lparr>confirmDisabled_a := True\<rparr>
              else (setHint_a [] g)\<lparr>confirmDisabled_a := False\<rparr>
         else g\<lparr>confirmDisabled_a := True\<rparr>)"

text \<open>
  \<^verbatim>\<open>assignCard(idx, row)\<close> writes the assignment first; it then highlights the buttons of
  the card's group, which throws when no group has that index, before the confirm button
  is updated. \<^verbatim>\<open>renderHandArea\<close> builds one group for each index of the hand.
\<close>

definition assignCard :: "nat \<Rightarrow> dest \<Rightarrow> game_a \<Rightarrow> game_a" where
  "assignCard idx r g =
     (let g1 = g\<lparr>assignments := AList.update idx r (assignments g)\<rparr>
      in if idx < length (currentCards_a g) then updateConfirmButton_b g1 else g1)"

fun phase_text :: "phase \<Rightarrow> string" where
  "phase_text InitHuman = ''init_human''"
| "phase_text HumanTurn = ''human_turn''"
| "phase_text GameOver = ''game_over''"
| "phase_text (Unexpected s) = s"

definition applyState_b :: "reply \<Rightarrow> game_a \<Rightarrow> game_a" where
  "applyState_b state g =
     (let g1 = g\<lparr>gameId_a := Some (game_id state)\<rparr>
      in if phase state = InitHuman \<or> phase state = HumanTurn then
           let g2 = updateConfirmButton_b
                      (g1\<lparr>isInitial_a := (phase state = InitHuman),
                          currentCards_a := cards state,
                          assignments := []\<rparr>)
           in setStatus_a
                (if isInitial_a g2 then
                   ''Opening hand: place 3 cards in Front and 2 in Middle/Back.''
                 else ''Draw: place 2 cards and discard 1.'') g2
         else if phase state = GameOver then setStatus_a ''Game over!'' g1
         else setStatus_a (''Unexpected phase: '' @ phase_text (phase state)) g1)"

definition submitPlay_b :: "(string option \<Rightarrow> placement list \<Rightarrow> fetched) \<Rightarrow> game_a \<Rightarrow> game_a" where
  "submitPlay_b fetchPlay g =
     (case validateAssignments_b g of
        (False, g') \<Rightarrow> g'
      | (True, g') \<Rightarrow>
          let g1 = g'\<lparr>loading_a := True, confirmDisabled_a := True\<rparr>;
              g2 = (case fetchPlay (gameId_a g') (placements_a g') of
                      Failed msg \<Rightarrow>
                        (setStatus_a (''Network error: '' @ msg) g1)\<lparr>confirmDisabled_a := False\<rparr>
                    | Replied state \<Rightarrow>
                        if truthy (error state) then
                          (setStatus_a (''Error: '' @ the (error state)) g1)\<lparr>confirmDisabled_a := False\<rparr>
                        else applyState_b state g1)
          in g2\<lparr>loading_a := False\<rparr>)"

datatype gesture_b = AssignCard nat dest

fun perform_b :: "game_a \<Rightarrow> gesture_b \<Rightarrow> game_a" where
  "perform_b g (AssignCard idx r) = assignCard idx r g"

definition perform_all_b :: "gesture_b list \<Rightarrow> game_a \<Rightarrow> game_a" where
  "perform_all_b gs g = foldl perform_b g gs"

section \<open>Notions used in the statements and proofs\<close>

text \<open>The pending placements after an accepted \<^verbatim>\<open>placeCardOnRow(idx, row)\<close>.\<close>

definition push_row :: "nat \<Rightarrow> row \<Rightarrow> nat rows \<Rightarrow> nat rows" where
  "push_row idx r bp = (let bp1 = removeFromPlacements idx bp in setRow r (getRow r bp1 @ [idx]) bp1)"

text \<open>The rows part of the list \<^verbatim>\<open>placements\<close>, before the automatic discard.\<close>

definition tagged :: "nat rows \<Rightarrow> placement list" where
  "tagged bp = map (\<lambda>idx. (idx, Row Front)) (front_row bp)
               @ map (\<lambda>idx. (idx, Row Middle)) (middle_row bp)
               @ map (\<lambda>idx. (idx, Row Back)) (back_row bp)"

text \<open>The number of placed cards that enables the confirm button of the rows version.\<close>

definition required :: "game \<Rightarrow> int" where
  "required g = (if isInitial g then int (length (currentCards g)) else int (length (currentCards g)) - 1)"

text \<open>
  The invariant of a turn of the rows version that began with the reply \<open>state\<close>: the turn
  is open, the hand and the board are those of the reply, no index is placed twice, every
  placed index is one of the hand, and the confirm button reflects the placements.
\<close>

definition placing :: "reply \<Rightarrow> game \<Rightarrow> bool" where
  "placing state g \<longleftrightarrow>
     isActionMode g \<and> currentServerBoard g = Some (player_board state)
     \<and> currentCards g = cards state \<and> isInitial g = (phase state = InitHuman)
     \<and> distinct (placed (boardPlacements g))
     \<and> set (placed (boardPlacements g)) \<subseteq> {..<length (cards state)}
     \<and> confirmDisabled g = (int (length (placed (boardPlacements g))) \<noteq> required g)"

text \<open>Committed cards plus pending placements stay within the size of every row.\<close>

definition fits :: "card rows \<Rightarrow> nat rows \<Rightarrow> bool" where
  "fits board bp \<longleftrightarrow>
     (\<forall>r. int (length (getRow r board)) + int (length (getRow r bp)) \<le> max_row r)"

definition capped :: "card rows \<Rightarrow> game \<Rightarrow> bool" where
  "capped board g \<longleftrightarrow> currentServerBoard g = Some board \<and> fits board (boardPlacements g)"

text \<open>What the confirm button of the zones version is enabled for.\<close>

definition valid_z :: "game_a \<Rightarrow> bool" where
  "valid_z g \<longleftrightarrow>
     length (assignments g) = length (currentCards_a g)
     \<and> (if isInitial_a g then count_list (map snd (assignments g)) (Row Front) \<le> 3
         else count_list (map snd (assignments g)) Discard = 1)"

text \<open>The invariant of a turn of the zones version that began with the reply \<open>state\<close>.\<close>

definition placing_z :: "reply \<Rightarrow> game_a \<Rightarrow> bool" where
  "placing_z state g \<longleftrightarrow>
     currentCards_a g = cards state \<and> isInitial_a g = (phase state = InitHuman)
     \<and> distinct (map fst (assignments g))
     \<and> fst ` set (assignments g) \<subseteq> {..<length (cards state)}
     \<and> confirmDisabled_a g = (\<not> valid_z g)"

subsection \<open>Example states\<close>

text \<open>
  The module state when the script has loaded (no game, an empty hand, the confirm button
  disabled, no hint), an opening deal of five cards, a later deal of three cards onto a board
  that holds the five opening cards, and a reply that rejects a submission.
\<close>

definition initial :: game where
  "initial = \<lparr>gameId = None, currentCards = [], currentServerBoard = None,
     boardPlacements = Rows [] [] [], isInitial = False, isActionMode = False,
     hint = [], confirmDisabled = True, statusText = [], statusHidden = True,
     boardDrop = False, loading = False\<rparr>"

definition initial_a :: game_a where
  "initial_a = \<lparr>gameId_a = None, currentCards_a = [], assignments = [], isInitial_a = False,
     hint_a = [], confirmDisabled_a = True, statusText_a = [], statusHidden_a = True,
     loading_a = False\<rparr>"

definition opening_reply :: reply where
  "opening_reply = \<lparr>error = None, game_id = ''g1'', phase = InitHuman,
     cards = [Card ''A'' ''s'', Card ''K'' ''s'', Card ''Q'' ''h'', Card ''7'' ''d'', Card ''2'' ''c''],
     player_board = Rows [] [] [], ai_board = Rows [] [] [], ai_goes_first = False\<rparr>"

definition draw_reply :: reply where
  "draw_reply = \<lparr>error = None, game_id = ''g1'', phase = HumanTurn,
     cards = [Card ''T'' ''s'', Card ''9'' ''h'', Card ''3'' ''d''],
     player_board = Rows [Card ''Q'' ''h'', Card ''7'' ''d'', Card ''2'' ''c''] [Card ''K'' ''s''] [Card ''A'' ''s''],
     ai_board = Rows [] [Card ''5'' ''c'', Card ''5'' ''d''] [Card ''J'' ''c'', Card ''J'' ''d'', Card ''J'' ''h''],
     ai_goes_first = False\<rparr>"

definition rejected_reply :: reply where
  "rejected_reply = draw_reply\<lparr>error := Some ''Invalid placements''\<rparr>"

text \<open>Two cards of the three-card deal placed, the third left in the hand.\<close>

definition two_placed :: game where
  "two_placed = perform_all [PlaceCardOnRow 0 Middle, PlaceCardOnRow 1 Back] (applyState draw_reply initial)"

definition two_assigned :: game_a where
  "two_assigned = perform_all_z [MoveCard 0 (Zone (Row Middle)), MoveCard 1 (Zone (Row Back))] (applyState_z draw_reply initial_a)"

text \<open>An opening turn with the front row filled, in the rows and in the zones version.\<close>

definition three_in_front :: game where
  "three_in_front = perform_all [PlaceCardOnRow 0 Front, PlaceCardOnRow 1 Front, PlaceCardOnRow 2 Front]
     (applyState opening_reply initial)"

definition three_in_front_z :: game_a where
  "three_in_front_z = perform_all_z [MoveCard 0 (Zone (Row Front)), MoveCard 1 (Zone (Row Front)),
     MoveCard 2 (Zone (Row Front))] (applyState_z opening_reply initial_a)"

text \<open>The zones version takes a fourth card on the front row.\<close>

definition four_in_front_z :: game_a where
  "four_in_front_z = perform_all_z [MoveCard 0 (Zone (Row Front)), MoveCard 1 (Zone (Row Front)),
     MoveCard 2 (Zone (Row Front)), MoveCard 3 (Zone (Row Front))] (applyState_z opening_reply initial_a)"

text \<open>Gestures of the rows version on the three-card deal, some of them turned down.\<close>

definition all_on_board :: "gesture list" where
  "all_on_board = [PlaceCardOnRow 0 Front, PlaceCardOnRow 0 Middle, PlaceCardOnRow 1 Middle,
     PlaceCardOnRow 2 Middle, PlaceCardOnRow 0 Back, PlaceCardOnRow 1 Middle, ReturnCardToHand 2,
     PlaceCardOnRow 2 Middle]"

text \<open>A complete opening turn (rows version) and a complete draw turn (zones version).\<close>

definition opening_done :: "gesture list" where
  "opening_done = [PlaceCardOnRow 0 Front, PlaceCardOnRow 1 Front, PlaceCardOnRow 2 Front,
     PlaceCardOnRow 3 Middle, PlaceCardOnRow 4 Back]"

definition draw_done_z :: "gesture_z list" where
  "draw_done_z = [MoveCard 2 (Zone (Row Back)), MoveCard 0 (Zone Discard), MoveCard 1 (Zone (Row Front))]"

definition draw_done :: game_a where
  "draw_done = perform_all_z draw_done_z (applyState_z draw_reply initial_a)"

text \<open>A complete draw turn of the zones version, then card 0 dragged back to the pool.\<close>

definition draw_undone_z :: "gesture_z list" where
  "draw_undone_z = draw_done_z @ [MoveCard 0 Pool]"

text \<open>
  Drops that carry the number 7, which is no index of the hand: after a complete opening turn
  (then card 0 is dragged back to the hand), before an opening turn is played, and on a draw
  turn with all three cards on the board (then cards 0 and 1 are dragged back).
\<close>

definition stuck :: "gesture list" where
  "stuck = opening_done @ [PlaceCardOnRow 7 Middle, ReturnCardToHand 0]"

definition never_enabled :: "gesture list" where
  "never_enabled = PlaceCardOnRow 7 Middle # opening_done"

definition draw_foreign :: "gesture list" where
  "draw_foreign = [PlaceCardOnRow 0 Middle, PlaceCardOnRow 1 Back, PlaceCardOnRow 2 Back,
     PlaceCardOnRow 7 Middle, ReturnCardToHand 0, ReturnCardToHand 1]"

text \<open>
  A complete opening turn followed by a drop on the full front row, and a draw turn with all
  three cards placed on the board.
\<close>

definition turned_down :: "gesture list" where
  "turned_down = opening_done @ [PlaceCardOnRow 3 Front]"

definition all_three_placed :: "gesture list" where
  "all_three_placed = [PlaceCardOnRow 0 Middle, PlaceCardOnRow 1 Back, PlaceCardOnRow 2 Back]"

subsection \<open>The hint and the confirm button\<close>

text \<open>The hint \<^verbatim>\<open>placeCardOnRow\<close> sets when it turns a drop down.\<close>

definition row_full :: "row \<Rightarrow> string" where
  "row_full r = capitalise (row_name r) @ '' row is full.''"

text \<open>The hint \<^verbatim>\<open>updateConfirmButton\<close> of the rows version computes from the placements.\<close>

definition pending_hint :: "game \<Rightarrow> string" where
  "pending_hint g =
     (let n = int (length (currentCards g)); total = int (length (placed (boardPlacements g)))
      in if \<not> isInitial g then
           (if n - total > 1 then place_more (n - 1 - total)
            else if n - total = 1 then ''The last card will be automatically discarded.''
            else [])
         else (if n - total > 0 then place_more (n - total) else []))"

text \<open>
  How the hint and the confirm button of the rows version go together on a turn, whatever the
  drops carried; and the invariant of a turn that needs no assumption on the gestures.
\<close>

definition hint_fits :: "game \<Rightarrow> bool" where
  "hint_fits g \<longleftrightarrow>
     (if isInitial g then
        (hint g = [] \<longrightarrow> \<not> confirmDisabled g)
        \<and> (\<not> confirmDisabled g \<longrightarrow> hint g = [] \<or> (\<exists>r. hint g = row_full r))
      else
        (\<not> confirmDisabled g \<longrightarrow>
           hint g = ''The last card will be automatically discarded.'' \<or> (\<exists>r. hint g = row_full r))
        \<and> (hint g = ''The last card will be automatically discarded.'' \<longrightarrow> \<not> confirmDisabled g))"

definition turn :: "reply \<Rightarrow> game \<Rightarrow> bool" where
  "turn state g \<longleftrightarrow>
     isActionMode g \<and> currentCards g = cards state \<and> isInitial g = (phase state = InitHuman)
     \<and> distinct (placed (boardPlacements g)) \<and> hint_fits g"

text \<open>The hint is the one computed from the placements, or the one of a drop turned down.\<close>

definition hint_current :: "game \<Rightarrow> bool" where
  "hint_current g \<longleftrightarrow> hint g = pending_hint g \<or> (\<exists>r. hint g = row_full r)"

text \<open>How the hint and the confirm button of the zones version go together.\<close>

definition hint_fits_z :: "game_a \<Rightarrow> bool" where
  "hint_fits_z h \<longleftrightarrow>
     (length (Object_keys (assignments h)) = length (currentCards_a h)
        \<longrightarrow> (hint_a h = []) = (\<not> confirmDisabled_a h))
     \<and> (length (Object_keys (assignments h)) \<noteq> length (currentCards_a h) \<longrightarrow> confirmDisabled_a h)"

section \<open>Lemmas\<close>

subsection \<open>Rows and pending placements\<close>

lemma getRow_setRow: "getRow r (setRow r' xs bp) = (if r = r' then xs else getRow r bp)"
  by (cases bp; cases r; cases r') simp_all

lemma getRow_removeFromPlacements:
  "getRow r (removeFromPlacements idx bp) = filter (\<lambda>i. i \<noteq> idx) (getRow r bp)"
  by (cases r) (simp_all add: removeFromPlacements_def)

lemma placed_removeFromPlacements:
  "placed (removeFromPlacements idx bp) = filter (\<lambda>i. i \<noteq> idx) (placed bp)"
  by (simp add: placed_def removeFromPlacements_def)

lemma set_placed: "set (placed bp) = set (getRow Front bp) \<union> set (getRow Middle bp) \<union> set (getRow Back bp)"
  by (auto simp: placed_def)

lemma length_placed:
  "int (length (front_row bp)) + int (length (middle_row bp)) + int (length (back_row bp))
     = int (length (placed bp))"
  by (simp add: placed_def)

lemma getRow_push:
  "getRow r' (push_row idx r bp) =
     (if r' = r then filter (\<lambda>i. i \<noteq> idx) (getRow r bp) @ [idx]
      else filter (\<lambda>i. i \<noteq> idx) (getRow r' bp))"
  by (simp add: push_row_def Let_def getRow_setRow getRow_removeFromPlacements)

lemma distinct_push: "distinct (placed bp) \<Longrightarrow> distinct (placed (push_row idx r bp))"
  by (cases bp; cases r) (auto simp: push_row_def placed_def removeFromPlacements_def)

lemma set_push: "set (placed (push_row idx r bp)) = insert idx (set (placed bp))"
  by (cases bp; cases r) (auto simp: push_row_def placed_def removeFromPlacements_def)

lemma count_list_filter_neq:
  "count_list (filter (\<lambda>i. i \<noteq> idx) xs) j = (if j = idx then 0 else count_list xs j)"
  by (induction xs) auto

lemma count_getRow_push:
  "count_list (getRow r' (push_row idx r bp)) j =
     (if j = idx then (if r' = r then 1 else 0) else count_list (getRow r' bp) j)"
  by (simp add: getRow_push count_list_filter_neq count_list_append)

subsection \<open>The confirm button and the refresh of the rows version\<close>

lemma updateConfirmButton_fields [simp]:
  "isActionMode (updateConfirmButton g) = isActionMode g"
  "currentServerBoard (updateConfirmButton g) = currentServerBoard g"
  "currentCards (updateConfirmButton g) = currentCards g"
  "isInitial (updateConfirmButton g) = isInitial g"
  "boardPlacements (updateConfirmButton g) = boardPlacements g"
  "gameId (updateConfirmButton g) = gameId g"
  "boardDrop (updateConfirmButton g) = boardDrop g"
  "statusText (updateConfirmButton g) = statusText g"
  "statusHidden (updateConfirmButton g) = statusHidden g"
  "loading (updateConfirmButton g) = loading g"
  by (simp_all add: updateConfirmButton_def setHint_def Let_def)

lemma updateConfirmButton_disabled:
  "confirmDisabled (updateConfirmButton g) =
     (\<not> isActionMode g \<or> int (length (placed (boardPlacements g))) \<noteq> required g)"
  by (simp add: updateConfirmButton_def setHint_def Let_def required_def length_placed [symmetric])

lemma required_updateConfirmButton [simp]: "required (updateConfirmButton g) = required g"
  by (simp add: required_def)

lemma refreshUI_fields [simp]:
  "isActionMode (refreshUI g) = isActionMode g"
  "currentServerBoard (refreshUI g) = currentServerBoard g"
  "currentCards (refreshUI g) = currentCards g"
  "isInitial (refreshUI g) = isInitial g"
  "boardPlacements (refreshUI g) = boardPlacements g"
  by (simp_all add: refreshUI_def)

lemma placeCardOnRow_cases:
  assumes "currentServerBoard g = Some board"
  shows "placeCardOnRow idx r g =
     (if int (length (getRow r board)) + int (length (getRow r (boardPlacements g))) \<ge> max_row r
      then setHint (capitalise (row_name r) @ '' row is full.'') g
      else refreshUI (g\<lparr>boardPlacements := push_row idx r (boardPlacements g)\<rparr>))"
  using assms by (simp add: placeCardOnRow_def push_row_def Let_def)

lemma boardPlacements_placeCardOnRow:
  "boardPlacements (placeCardOnRow idx r g) =
     (case currentServerBoard g of
        None \<Rightarrow> boardPlacements g
      | Some board \<Rightarrow>
          if int (length (getRow r board)) + int (length (getRow r (boardPlacements g))) \<ge> max_row r
          then boardPlacements g else push_row idx r (boardPlacements g))"
  by (cases "currentServerBoard g") (simp_all add: placeCardOnRow_cases setHint_def, simp add: placeCardOnRow_def)

lemma boardPlacements_returnCardToHand:
  "boardPlacements (returnCardToHand idx g) = removeFromPlacements idx (boardPlacements g)"
  by (simp add: returnCardToHand_def)

subsection \<open>The invariant of a turn of the rows version\<close>

lemma placing_refreshUI:
  assumes "isActionMode g" "currentServerBoard g = Some (player_board state)"
    "currentCards g = cards state" "isInitial g = (phase state = InitHuman)"
    "distinct (placed (boardPlacements g))"
    "set (placed (boardPlacements g)) \<subseteq> {..<length (cards state)}"
  shows "placing state (refreshUI g)"
proof -
  have "\<not> renderPlayerBoard_throws g"
    using assms by (auto simp: renderPlayerBoard_throws_def)
  then have "refreshUI g = updateConfirmButton g"
    by (simp add: refreshUI_def)
  then show ?thesis
    using assms by (simp add: placing_def updateConfirmButton_disabled)
qed

lemma placing_setStatus: "placing state g \<Longrightarrow> placing state (setStatus msg g)"
  by (simp add: placing_def setStatus_def required_def)

lemma placing_enableBoardDrop: "placing state g \<Longrightarrow> placing state (enableBoardDrop g)"
  by (simp add: placing_def enableBoardDrop_def required_def)

lemma placing_setHint: "placing state g \<Longrightarrow> placing state (setHint msg g)"
  by (simp add: placing_def setHint_def required_def)

lemma placing_applyState:
  assumes "phase state = InitHuman \<or> phase state = HumanTurn"
  shows "placing state (applyState state g0)"
proof -
  let ?g = "g0\<lparr>gameId := Some (game_id state), currentServerBoard := Some (player_board state)\<rparr>
              \<lparr>isInitial := (phase state = InitHuman), isActionMode := True,
               currentCards := cards state, boardPlacements := Rows [] [] []\<rparr>"
  have p: "placing state (refreshUI ?g)"
    by (rule placing_refreshUI) (simp_all add: placed_def)
  show ?thesis
    unfolding applyState_def Let_def
    using assms p by (auto intro!: placing_enableBoardDrop placing_setStatus)
qed

lemma placing_placeCardOnRow:
  assumes "placing state g" "idx < length (cards state)"
  shows "placing state (placeCardOnRow idx r g)"
proof -
  have b: "currentServerBoard g = Some (player_board state)"
    using assms(1) by (simp add: placing_def)
  show ?thesis
  proof (cases "int (length (getRow r (player_board state))) + int (length (getRow r (boardPlacements g))) \<ge> max_row r")
    case True
    then show ?thesis
      using assms(1) by (simp add: placeCardOnRow_cases [OF b] placing_setHint)
  next
    case False
    have "placing state (refreshUI (g\<lparr>boardPlacements := push_row idx r (boardPlacements g)\<rparr>))"
      using assms by (intro placing_refreshUI) (auto simp: placing_def distinct_push set_push)
    then show ?thesis
      using False by (simp add: placeCardOnRow_cases [OF b])
  qed
qed

lemma placing_returnCardToHand:
  assumes "placing state g"
  shows "placing state (returnCardToHand idx g)"
  unfolding returnCardToHand_def
  using assms by (intro placing_refreshUI) (auto simp: placing_def placed_removeFromPlacements)

lemma placing_perform:
  "placing state g \<Longrightarrow> gesture_idx ge < length (cards state) \<Longrightarrow> placing state (perform g ge)"
  by (cases ge) (simp_all add: placing_placeCardOnRow placing_returnCardToHand)

lemma placing_perform_all:
  "placing state g \<Longrightarrow> \<forall>ge \<in> set gs. gesture_idx ge < length (cards state) \<Longrightarrow>
   placing state (perform_all gs g)"
  unfolding perform_all_def
  by (induction gs arbitrary: g) (simp_all add: placing_perform)

subsection \<open>Row capacity\<close>

lemma fits_push:
  assumes "fits board bp"
    and "\<not> int (length (getRow r board)) + int (length (getRow r bp)) \<ge> max_row r"
  shows "fits board (push_row idx r bp)"
  unfolding fits_def
proof
  fix r'
  show "int (length (getRow r' board)) + int (length (getRow r' (push_row idx r bp))) \<le> max_row r'"
  proof (cases "r' = r")
    case True
    have "int (length (getRow r (push_row idx r bp))) \<le> 1 + int (length (getRow r bp))"
      by (simp add: getRow_push)
    then have "int (length (getRow r board)) + int (length (getRow r (push_row idx r bp))) \<le> max_row r"
      using assms(2) by linarith
    then show ?thesis using True by simp
  next
    case False
    have "int (length (getRow r' (push_row idx r bp))) \<le> int (length (getRow r' bp))"
      using False by (simp add: getRow_push)
    moreover have "int (length (getRow r' board)) + int (length (getRow r' bp)) \<le> max_row r'"
      using assms(1) by (simp add: fits_def)
    ultimately show ?thesis by linarith
  qed
qed

lemma fits_remove: "fits board bp \<Longrightarrow> fits board (removeFromPlacements idx bp)"
  unfolding fits_def
proof
  fix r
  assume a: "\<forall>r. int (length (getRow r board)) + int (length (getRow r bp)) \<le> max_row r"
  have "int (length (getRow r (removeFromPlacements idx bp))) \<le> int (length (getRow r bp))"
    by (simp add: getRow_removeFromPlacements)
  with a [rule_format, of r]
  show "int (length (getRow r board)) + int (length (getRow r (removeFromPlacements idx bp))) \<le> max_row r"
    by linarith
qed

lemma capped_placeCardOnRow: "capped board g \<Longrightarrow> capped board (placeCardOnRow idx r g)"
  by (simp add: capped_def placeCardOnRow_cases fits_push setHint_def)

lemma capped_returnCardToHand: "capped board g \<Longrightarrow> capped board (returnCardToHand idx g)"
  by (simp add: capped_def returnCardToHand_def fits_remove)

lemma capped_perform_all: "capped board g \<Longrightarrow> capped board (perform_all gs g)"
  unfolding perform_all_def
proof (induction gs arbitrary: g)
  case Nil
  then show ?case by simp
next
  case (Cons ge gs)
  have "capped board (perform g ge)"
    using Cons.prems by (cases ge) (simp_all add: capped_placeCardOnRow capped_returnCardToHand)
  then show ?case using Cons.IH by simp
qed

lemma applyState_ledger:
  assumes "phase state = InitHuman \<or> phase state = HumanTurn"
  shows "boardPlacements (applyState state g0) = Rows [] [] []"
    and "currentServerBoard (applyState state g0) = Some (player_board state)"
    and "currentCards (applyState state g0) = cards state"
  using assms by (auto simp: applyState_def Let_def enableBoardDrop_def setStatus_def)

lemma capped_applyState:
  assumes "phase state = InitHuman \<or> phase state = HumanTurn"
    and "fits (player_board state) (Rows [] [] [])"
  shows "capped (player_board state) (applyState state g0)"
  using assms by (simp add: capped_def applyState_ledger)

subsection \<open>The submitted list of the rows version\<close>

lemma count_list_tagged:
  "count_list (map snd (map (\<lambda>idx. (idx, d)) xs)) d' = (if d = d' then length xs else 0)"
  by (induction xs) auto

lemma count_placements_Discard: "count_list (map snd (placements g)) Discard \<le> 1"
  by (simp add: placements_def Let_def count_list_tagged del: map_map split: option.splits)

lemma fst_tagged: "map fst (tagged bp) = placed bp"
  by (simp add: tagged_def placed_def comp_def)

lemma placements_tagged:
  "placements g =
     tagged (boardPlacements g)
     @ (if isInitial g then []
        else case find (\<lambda>i. i \<notin> set (placed (boardPlacements g))) [0..<length (currentCards g)] of
               Some i \<Rightarrow> [(i, Discard)] | None \<Rightarrow> [])"
  by (simp add: placements_def tagged_def getAllPlacedIndices_def Let_def split: option.splits)

lemma find_unique:
  assumes "k \<in> set xs" "P k" "\<forall>x \<in> set xs. P x \<longrightarrow> x = k"
  shows "find P xs = Some k"
proof (cases "find P xs")
  case None
  then show ?thesis using assms(1,2) by (simp add: find_None_iff)
next
  case (Some x)
  then have "P x" "x \<in> set xs"
    by (auto simp: find_Some_iff)
  then show ?thesis using assms(3) Some by simp
qed

lemma find_unplaced:
  assumes "k < n" "set ps = {..<n} - {k}"
  shows "find (\<lambda>i. i \<notin> set ps) [0..<n] = Some k"
  using assms by (intro find_unique) auto

lemma one_left:
  assumes "distinct ps" "set ps \<subseteq> {..<n}" "int (length ps) = int n - 1"
  shows "\<exists>k < n. set ps = {..<n} - {k}"
proof -
  have c: "card (set ps) = n - 1" "0 < n"
    using assms(1,3) by (simp_all add: distinct_card)
  have "card ({..<n} - set ps) = card {..<n} - card (set ps)"
    using assms(2) by (simp add: card_Diff_subset)
  then have "card ({..<n} - set ps) = 1"
    using c by simp
  then obtain k where k: "{..<n} - set ps = {k}"
    by (auto simp: card_1_singleton_iff)
  then have "k < n" "k \<notin> set ps" by auto
  moreover have "set ps = {..<n} - {k}"
    using k assms(2) by auto
  ultimately show ?thesis by blast
qed

lemma all_placed:
  assumes "distinct ps" "set ps \<subseteq> {..<n}" "length ps = n"
  shows "set ps = {..<n}"
  using assms by (intro card_subset_eq) (simp_all add: distinct_card)

lemma placements_cover:
  assumes "placing state g" "\<not> confirmDisabled g"
  shows "distinct (map fst (placements g)) \<and> set (map fst (placements g)) = {..<length (cards state)}"
proof -
  let ?ps = "placed (boardPlacements g)"
  let ?n = "length (cards state)"
  have d: "distinct ?ps" and s: "set ?ps \<subseteq> {..<?n}"
    and c: "currentCards g = cards state"
    and len: "int (length ?ps) = required g"
    using assms by (simp_all add: placing_def)
  show ?thesis
  proof (cases "isInitial g")
    case True
    then have "length ?ps = ?n" using len c by (simp add: required_def)
    then have "set ?ps = {..<?n}" using d s by (intro all_placed)
    then show ?thesis using True d by (simp add: placements_tagged fst_tagged)
  next
    case False
    then have "int (length ?ps) = int ?n - 1" using len c by (simp add: required_def)
    then obtain k where k: "k < ?n" "set ?ps = {..<?n} - {k}"
      using one_left [OF d s] by blast
    then have "find (\<lambda>i. i \<notin> set ?ps) [0..<?n] = Some k"
      by (rule find_unplaced)
    then have "map fst (placements g) = ?ps @ [k]"
      using False c by (simp add: placements_tagged fst_tagged)
    then show ?thesis using d k by auto
  qed
qed

lemma auto_discard:
  assumes "isActionMode g" "\<not> isInitial g" "distinct (placed (boardPlacements g))"
    "k < length (currentCards g)"
    "set (placed (boardPlacements g)) = {..<length (currentCards g)} - {k}"
  shows "\<not> confirmDisabled (updateConfirmButton g)"
    and "placements g = tagged (boardPlacements g) @ [(k, Discard)]"
proof -
  let ?ps = "placed (boardPlacements g)"
  let ?n = "length (currentCards g)"
  have "card (set ?ps) = ?n - 1" using assms(4,5) by simp
  then have "int (length ?ps) = int ?n - 1"
    using assms(3,4) by (simp add: distinct_card of_nat_diff)
  then show "\<not> confirmDisabled (updateConfirmButton g)"
    using assms(1,2) by (simp add: updateConfirmButton_disabled required_def)
  have "find (\<lambda>i. i \<notin> set ?ps) [0..<?n] = Some k"
    using assms(4,5) by (rule find_unplaced)
  then show "placements g = tagged (boardPlacements g) @ [(k, Discard)]"
    using assms(2) by (simp add: placements_tagged)
qed

subsection \<open>The object of assignments\<close>

lemma fold_counts: "fold (\<lambda>r c. c(r := c r + 1)) vs c0 r = c0 r + count_list vs r"
  by (induction vs arbitrary: c0) auto

lemma counts_count_list: "counts vs r = count_list vs r"
  by (simp only: counts_def fold_counts)

lemma length_Object_keys [simp]: "length (Object_keys obj) = length obj"
  by (simp add: Object_keys_def Object_entries_def)

lemma set_Object_entries [simp]: "set (Object_entries obj) = set obj"
  by (simp add: Object_entries_def)

lemma count_list_sort_key: "count_list (map g (sort_key f xs)) v = count_list (map g xs) v"
proof (induction xs)
  case Nil
  then show ?case by simp
next
  case (Cons x xs)
  have ins: "count_list (map g (insort_key f x ys)) v = count_list (map g (x # ys)) v" for ys
    by (induction ys) auto
  show ?case using Cons by (simp add: ins)
qed

lemma counts_Object_values: "counts (Object_values obj) d = count_list (map snd obj) d"
  by (simp add: counts_count_list Object_values_def Object_entries_def count_list_sort_key)

lemma distinct_keys_entries:
  "distinct (map fst obj) \<Longrightarrow> distinct (map fst (Object_entries obj))"
proof -
  assume d: "distinct (map fst obj)"
  have "card (set (map fst (Object_entries obj))) = card (set (map fst obj))"
    by simp
  also have "\<dots> = length (map fst (Object_entries obj))"
    using distinct_card [OF d] by (simp add: Object_entries_def)
  finally show ?thesis by (rule card_distinct)
qed

lemma keys_full:
  assumes "distinct (map fst obj)" "fst ` set obj \<subseteq> {..<n}" "length obj \<ge> n"
  shows "fst ` set obj = {..<n}" and "length obj = n"
proof -
  have c: "card (fst ` set obj) = length obj"
    using assms(1) by (metis distinct_card length_map set_map)
  have "card (fst ` set obj) \<le> card {..<n}"
    using assms(2) by (intro card_mono) simp_all
  then show l: "length obj = n" using c assms(3) by simp
  show "fst ` set obj = {..<n}"
    using assms(2) c l by (intro card_subset_eq) simp_all
qed

subsection \<open>The zones and buttons versions\<close>

lemma updateConfirmButton_z_fields [simp]:
  "currentCards_a (updateConfirmButton_z g) = currentCards_a g"
  "assignments (updateConfirmButton_z g) = assignments g"
  "isInitial_a (updateConfirmButton_z g) = isInitial_a g"
  "gameId_a (updateConfirmButton_z g) = gameId_a g"
  by (simp_all add: updateConfirmButton_z_def setHint_a_def Let_def)

lemma updateConfirmButton_b_fields [simp]:
  "currentCards_a (updateConfirmButton_b g) = currentCards_a g"
  "assignments (updateConfirmButton_b g) = assignments g"
  "isInitial_a (updateConfirmButton_b g) = isInitial_a g"
  "gameId_a (updateConfirmButton_b g) = gameId_a g"
  by (simp_all add: updateConfirmButton_b_def setHint_a_def Let_def)

lemma updateConfirmButton_z_disabled:
  "confirmDisabled_a (updateConfirmButton_z g) = (\<not> valid_z g)"
  by (auto simp: updateConfirmButton_z_def setHint_a_def Let_def valid_z_def counts_Object_values)

lemma validateAssignments_z_fst:
  "fst (validateAssignments_z g) \<longleftrightarrow>
     length (assignments g) \<ge> length (currentCards_a g)
     \<and> (if isInitial_a g then count_list (map snd (assignments g)) (Row Front) \<le> 3
         else count_list (map snd (assignments g)) Discard = 1)"
  by (auto simp: validateAssignments_z_def Let_def counts_Object_values)


lemma assignments_moveCard:
  "assignments (moveCard idx toZone g) =
     (if \<not> idx < length (currentCards_a g) then assignments g
      else case toZone of Pool \<Rightarrow> AList.delete idx (assignments g)
                        | Zone d \<Rightarrow> AList.update idx d (assignments g))"
  by (simp add: moveCard_def split: zone.splits)

lemma assignments_assignCard:
  "assignments (assignCard idx d g) = AList.update idx d (assignments g)"
  by (simp add: assignCard_def Let_def)

lemma placing_z_update:
  assumes "currentCards_a g = cards state" "isInitial_a g = (phase state = InitHuman)"
    "distinct (map fst (assignments g))" "fst ` set (assignments g) \<subseteq> {..<length (cards state)}"
  shows "placing_z state (updateConfirmButton_z g)"
  using assms by (simp add: placing_z_def updateConfirmButton_z_disabled valid_z_def)

lemma placing_z_moveCard:
  assumes "placing_z state g"
  shows "placing_z state (moveCard idx toZone g)"
proof (cases "idx < length (currentCards_a g)")
  case False
  then show ?thesis using assms by (simp add: moveCard_def)
next
  case True
  then have i: "idx < length (cards state)"
    using assms by (simp add: placing_z_def)
  show ?thesis
  proof (cases toZone)
    case Pool
    have "placing_z state (updateConfirmButton_z (g\<lparr>assignments := AList.delete idx (assignments g)\<rparr>))"
      using assms dom_delete_subset [of idx "assignments g"]
      by (intro placing_z_update) (auto simp: placing_z_def distinct_delete)
    then show ?thesis using True Pool by (simp add: moveCard_def)
  next
    case (Zone d)
    have "placing_z state (updateConfirmButton_z (g\<lparr>assignments := AList.update idx d (assignments g)\<rparr>))"
      using assms i by (intro placing_z_update) (auto simp: placing_z_def distinct_update dom_update)
    then show ?thesis using True Zone by (simp add: moveCard_def)
  qed
qed

lemma placing_z_perform_all: "placing_z state g \<Longrightarrow> placing_z state (perform_all_z gs g)"
  unfolding perform_all_z_def
proof (induction gs arbitrary: g)
  case Nil
  then show ?case by simp
next
  case (Cons ge gs)
  have "placing_z state (perform_z g ge)"
    using Cons.prems by (cases ge) (simp add: placing_z_moveCard)
  then show ?case using Cons.IH by simp
qed

lemma placing_z_setStatus: "placing_z state g \<Longrightarrow> placing_z state (setStatus_a msg g)"
  by (simp add: placing_z_def setStatus_a_def valid_z_def)

lemma placing_z_applyState:
  assumes "phase state = InitHuman \<or> phase state = HumanTurn"
  shows "placing_z state (applyState_z state g0)"
proof -
  let ?g = "g0\<lparr>gameId_a := Some (game_id state)\<rparr>
              \<lparr>isInitial_a := (phase state = InitHuman), currentCards_a := cards state,
               assignments := []\<rparr>"
  have p: "placing_z state (updateConfirmButton_z ?g)"
    by (rule placing_z_update) simp_all
  show ?thesis
    unfolding applyState_z_def Let_def
    using assms p by (auto intro!: placing_z_setStatus)
qed

lemma placements_a_cover:
  assumes "placing_z state g" "fst (validateAssignments_z g)"
  shows "distinct (map fst (placements_a g)) \<and> set (map fst (placements_a g)) = {..<length (cards state)}"
proof -
  have d: "distinct (map fst (assignments g))"
    and s: "fst ` set (assignments g) \<subseteq> {..<length (cards state)}"
    and c: "currentCards_a g = cards state"
    using assms(1) by (simp_all add: placing_z_def)
  have "length (assignments g) \<ge> length (cards state)"
    using assms(2) c by (simp add: validateAssignments_z_fst)
  then have "fst ` set (assignments g) = {..<length (cards state)}"
    using keys_full(1) [OF d s] by simp
  then show ?thesis
    using d by (simp add: placements_a_def distinct_keys_entries)
qed

subsection \<open>Locality of a mutation\<close>

lemma placeCardOnRow_frame:
  "j \<noteq> idx \<Longrightarrow>
   count_list (getRow r' (boardPlacements (placeCardOnRow idx r g))) j
     = count_list (getRow r' (boardPlacements g)) j"
  by (simp add: boardPlacements_placeCardOnRow count_getRow_push split: option.splits)

lemma returnCardToHand_frame:
  "j \<noteq> idx \<Longrightarrow>
   count_list (getRow r' (boardPlacements (returnCardToHand idx g))) j
     = count_list (getRow r' (boardPlacements g)) j"
  by (simp add: boardPlacements_returnCardToHand getRow_removeFromPlacements count_list_filter_neq)

lemma moveCard_frame:
  "j \<noteq> idx \<Longrightarrow> map_of (assignments (moveCard idx toZone g)) j = map_of (assignments g) j"
  by (simp add: assignments_moveCard update_conv' delete_conv' split: zone.splits)

lemma assignCard_frame:
  "j \<noteq> idx \<Longrightarrow> map_of (assignments (assignCard idx d g)) j = map_of (assignments g) j"
  by (simp add: assignments_assignCard update_conv')

subsection \<open>Row names and empty rows\<close>

lemma capitalise_row_name:
  "capitalise ''front'' = ''Front''"
  "capitalise ''middle'' = ''Middle''"
  "capitalise ''back'' = ''Back''"
  by code_simp+

lemma getRow_empty [simp]: "getRow r (Rows [] [] []) = []"
  by (cases r) simp_all

subsection \<open>Moving a placed card\<close>

lemma map_of_moveCard_Zone:
  "idx < length (currentCards_a h) \<Longrightarrow> map_of (assignments (moveCard idx (Zone d) h)) idx = Some d"
  by (simp add: assignments_moveCard update_conv')

lemma count_list_distinct: "distinct xs \<Longrightarrow> x \<in> set xs \<Longrightarrow> count_list xs x = 1"
  by (induction xs) auto

lemma reassign_rows:
  assumes "currentServerBoard g = Some board"
    and "int (length (getRow r board)) + int (length (getRow r (boardPlacements g))) < max_row r"
  shows "count_list (getRow r (boardPlacements (placeCardOnRow idx r g))) idx = 1"
    and "r' \<noteq> r \<Longrightarrow> idx \<notin> set (getRow r' (boardPlacements (placeCardOnRow idx r g)))"
  using assms by (simp_all add: boardPlacements_placeCardOnRow getRow_push count_list_filter_neq)

lemma reassign_zones:
  assumes "placing_z state h" "idx < length (cards state)"
  shows "map_of (assignments (moveCard idx (Zone d) h)) idx = Some d"
    and "count_list (map fst (assignments (moveCard idx (Zone d) h))) idx = 1"
proof -
  have c: "currentCards_a h = cards state"
    using assms(1) by (simp add: placing_z_def)
  show "map_of (assignments (moveCard idx (Zone d) h)) idx = Some d"
    using assms(2) c by (simp add: map_of_moveCard_Zone)
  have "distinct (map fst (assignments (moveCard idx (Zone d) h)))"
    using placing_z_moveCard [OF assms(1)] by (simp add: placing_z_def)
  moreover have "idx \<in> set (map fst (assignments (moveCard idx (Zone d) h)))"
    using assms(2) c by (simp add: assignments_moveCard dom_update)
  ultimately show "count_list (map fst (assignments (moveCard idx (Zone d) h))) idx = 1"
    by (rule count_list_distinct)
qed

subsection \<open>The hint\<close>

lemma hint_updateConfirmButton:
  "isActionMode g \<Longrightarrow>
   hint (updateConfirmButton g) =
     (let n = int (length (currentCards g)); total = int (length (placed (boardPlacements g)))
      in if \<not> isInitial g then
           (if n - total > 1 then place_more (n - 1 - total)
            else if n - total = 1 then ''The last card will be automatically discarded.''
            else [])
         else (if n - total > 0 then place_more (n - total) else []))"
  by (simp add: updateConfirmButton_def setHint_def Let_def length_placed [symmetric])

lemma place_more_neq [simp]:
  "place_more k \<noteq> []"
  "place_more k \<noteq> ''The last card will be automatically discarded.''"
  by (simp_all add: place_more_def)

lemma hint_updateConfirmButton_z:
  "hint_a (updateConfirmButton_z h) =
     (if length (Object_keys (assignments h)) = length (currentCards_a h) then
        (if isInitial_a h \<and> counts (Object_values (assignments h)) (Row Front) > 3
           then ''Front takes at most 3 cards.''
         else if \<not> isInitial_a h \<and> counts (Object_values (assignments h)) Discard \<noteq> 1
           then ''Discard exactly 1 card.''
         else [])
      else hint_a h)"
  by (simp add: updateConfirmButton_z_def setHint_a_def Let_def)

lemma hint_updateConfirmButton_b:
  "hint_a (updateConfirmButton_b h) =
     (if length (Object_keys (assignments h)) = length (currentCards_a h) then
        (if isInitial_a h \<and> counts (Object_values (assignments h)) (Row Front) > 3
           then ''Front can hold at most 3 cards.''
         else if \<not> isInitial_a h \<and> counts (Object_values (assignments h)) Discard \<noteq> 1
           then ''Discard exactly 1 card.''
         else [])
      else hint_a h)"
  by (simp add: updateConfirmButton_b_def setHint_a_def Let_def)

lemma disabled_updateConfirmButton_z:
  "confirmDisabled_a (updateConfirmButton_z h) =
     (length (Object_keys (assignments h)) = length (currentCards_a h) \<longrightarrow>
        (isInitial_a h \<and> counts (Object_values (assignments h)) (Row Front) > 3)
        \<or> (\<not> isInitial_a h \<and> counts (Object_values (assignments h)) Discard \<noteq> 1))"
  by (simp add: updateConfirmButton_z_def setHint_a_def Let_def)


lemma placed_within:
  assumes "placing state g"
  shows "length (placed (boardPlacements g)) \<le> length (cards state)"
proof -
  have "card (set (placed (boardPlacements g))) \<le> card {..<length (cards state)}"
    using assms by (intro card_mono) (simp_all add: placing_def)
  then show ?thesis
    using assms by (simp add: placing_def distinct_card)
qed

subsection \<open>The discard of a draw turn\<close>



subsection \<open>The front row of an opening turn\<close>

lemma fits_empty_board_placeCardOnRow:
  assumes "fits (Rows [] [] []) (boardPlacements g)"
  shows "fits (Rows [] [] []) (boardPlacements (placeCardOnRow idx r g))"
proof (cases "currentServerBoard g")
  case None
  then show ?thesis using assms by (simp add: boardPlacements_placeCardOnRow)
next
  case (Some board)
  show ?thesis
  proof (cases "int (length (getRow r board)) + int (length (getRow r (boardPlacements g))) \<ge> max_row r")
    case True
    then show ?thesis using assms Some by (simp add: boardPlacements_placeCardOnRow)
  next
    case False
    then have "\<not> int (length (getRow r (Rows [] [] []))) + int (length (getRow r (boardPlacements g))) \<ge> max_row r"
      by simp
    then have "fits (Rows [] [] []) (push_row idx r (boardPlacements g))"
      using assms by (intro fits_push)
    then show ?thesis using False Some by (simp add: boardPlacements_placeCardOnRow)
  qed
qed

lemma fits_empty_board_perform_all:
  "fits (Rows [] [] []) (boardPlacements g) \<Longrightarrow>
   fits (Rows [] [] []) (boardPlacements (perform_all gs g))"
  unfolding perform_all_def
proof (induction gs arbitrary: g)
  case Nil
  then show ?case by simp
next
  case (Cons ge gs)
  have "fits (Rows [] [] []) (boardPlacements (perform g ge))"
    using Cons.prems
    by (cases ge) (simp_all add: fits_empty_board_placeCardOnRow boardPlacements_returnCardToHand fits_remove)
  then show ?case using Cons.IH by simp
qed

lemma front_bounded:
  assumes "phase state = InitHuman \<or> phase state = HumanTurn"
  shows "length (front_row (boardPlacements (perform_all gs (applyState state g0)))) \<le> 3"
proof -
  have "fits (Rows [] [] []) (boardPlacements (applyState state g0))"
    using assms by (simp add: applyState_ledger fits_def max_row_def)
  then have "fits (Rows [] [] []) (boardPlacements (perform_all gs (applyState state g0)))"
    by (rule fits_empty_board_perform_all)
  then have "int (length (getRow Front (boardPlacements (perform_all gs (applyState state g0))))) \<le> max_row Front"
    unfolding fits_def by (metis add_0 getRow_empty list.size(3) of_nat_0)
  then show ?thesis by (simp add: max_row_def)
qed

lemma length_filter_member: "length (filter (\<lambda>i. i \<in> set xs) [0..<n]) \<le> length xs"
proof -
  have "length (filter (\<lambda>i. i \<in> set xs) [0..<n]) = card ({i. i \<in> set xs} \<inter> set [0..<n])"
    by (rule distinct_length_filter) simp
  also have "\<dots> \<le> card (set xs)"
    by (intro card_mono) auto
  also have "\<dots> \<le> length xs"
    by (rule card_length)
  finally show ?thesis .
qed

lemma rows_all_placed_iff:
  assumes "distinct ps" "set ps \<subseteq> {..<n}"
  shows "(length ps = n) = (\<forall>i<n. i \<in> set ps)"
proof
  assume "length ps = n"
  then have "set ps = {..<n}" using assms by (intro all_placed)
  then show "\<forall>i<n. i \<in> set ps" by simp
next
  assume "\<forall>i<n. i \<in> set ps"
  then have "set ps = {..<n}" using assms(2) by auto
  then have "card (set ps) = n" by simp
  then show "length ps = n" using assms(1) by (simp add: distinct_card)
qed

lemma placed_iff_row: "(i \<in> set (placed bp)) = (\<exists>r. i \<in> set (getRow r bp))"
proof
  assume "i \<in> set (placed bp)"
  then have "i \<in> set (getRow Front bp) \<or> i \<in> set (getRow Middle bp) \<or> i \<in> set (getRow Back bp)"
    by (simp add: placed_def)
  then show "\<exists>r. i \<in> set (getRow r bp)" by blast
next
  assume "\<exists>r. i \<in> set (getRow r bp)"
  then obtain r where "i \<in> set (getRow r bp)" ..
  then show "i \<in> set (placed bp)" by (cases r) (simp_all add: placed_def)
qed

lemma opening_rows_iff:
  assumes "phase state = InitHuman" "\<forall>ge \<in> set gs. gesture_idx ge < length (cards state)"
  shows "(\<not> confirmDisabled (perform_all gs (applyState state g0)))
     = ((\<forall>i<length (cards state). \<exists>r. i \<in> set (getRow r (boardPlacements (perform_all gs (applyState state g0)))))
        \<and> length (filter (\<lambda>i. i \<in> set (front_row (boardPlacements (perform_all gs (applyState state g0)))))
                    [0..<length (cards state)]) \<le> 3)"
proof -
  let ?g = "perform_all gs (applyState state g0)"
  let ?ps = "placed (boardPlacements ?g)"
  have p: "placing state ?g"
    using assms by (intro placing_perform_all placing_applyState) simp_all
  then have d: "distinct ?ps" and s: "set ?ps \<subseteq> {..<length (cards state)}"
    and dis: "confirmDisabled ?g = (int (length ?ps) \<noteq> required ?g)"
    and c: "currentCards ?g = cards state" and i: "isInitial ?g"
    using assms(1) by (simp_all add: placing_def)
  have "length (filter (\<lambda>i. i \<in> set (front_row (boardPlacements ?g))) [0..<length (cards state)])
        \<le> length (front_row (boardPlacements ?g))"
    by (rule length_filter_member)
  also have "\<dots> \<le> 3"
    using assms(1) by (intro front_bounded) simp
  finally have front: "length (filter (\<lambda>i. i \<in> set (front_row (boardPlacements ?g))) [0..<length (cards state)]) \<le> 3" .
  have "(\<not> confirmDisabled ?g) = (length ?ps = length (cards state))"
    using dis c i by (simp add: required_def)
  also have "\<dots> = (\<forall>i<length (cards state). i \<in> set ?ps)"
    using d s by (rule rows_all_placed_iff)
  also have "\<dots> = (\<forall>i<length (cards state). \<exists>r. i \<in> set (getRow r (boardPlacements ?g)))"
    by (simp only: placed_iff_row)
  finally show ?thesis using front by simp
qed

subsection \<open>Entries of the object and indices of the hand\<close>

lemma count_values_card:
  "distinct (map fst obj) \<Longrightarrow> count_list (map snd obj) v = card {k. map_of obj k = Some v}"
proof (induction obj)
  case Nil
  then show ?case by simp
next
  case (Cons p obj)
  obtain k x where p: "p = (k, x)" by (cases p)
  let ?S = "{k'. map_of obj k' = Some v}"
  have k: "k \<notin> fst ` set obj" and d: "distinct (map fst obj)"
    using Cons.prems p by auto
  then have none: "map_of obj k = None"
    by (simp add: map_of_eq_None_iff)
  have fin: "finite ?S"
  proof (rule finite_subset)
    show "?S \<subseteq> fst ` set obj"
      by (auto dest: map_of_SomeD intro: rev_image_eqI)
  qed simp
  have S: "{k'. map_of (p # obj) k' = Some v} = (if x = v then insert k ?S else ?S)"
    using none p by auto
  have "k \<notin> ?S" using none by simp
  then show ?case
    using Cons.IH [OF d] fin S p by simp
qed

lemma count_values_filter:
  assumes "distinct (map fst obj)" "fst ` set obj \<subseteq> {..<n}"
  shows "count_list (map snd obj) v = length (filter (\<lambda>i. map_of obj i = Some v) [0..<n])"
proof -
  have "{k. map_of obj k = Some v} \<subseteq> {..<n}"
    using assms(2) by (auto dest!: map_of_SomeD)
  then have "{k. map_of obj k = Some v} = {i. map_of obj i = Some v} \<inter> set [0..<n]"
    by auto
  moreover have "length (filter (\<lambda>i. map_of obj i = Some v) [0..<n])
      = card ({i. map_of obj i = Some v} \<inter> set [0..<n])"
    by (rule distinct_length_filter) simp
  ultimately show ?thesis
    using count_values_card [OF assms(1), of v] by simp
qed

lemma keys_all_iff:
  assumes "distinct (map fst obj)" "fst ` set obj \<subseteq> {..<n}"
  shows "(length obj = n) = (\<forall>i<n. map_of obj i \<noteq> None)"
proof
  assume "length obj = n"
  then have "fst ` set obj = {..<n}"
    using keys_full(1) [OF assms] by simp
  then show "\<forall>i<n. map_of obj i \<noteq> None"
    by (simp add: map_of_eq_None_iff)
next
  assume "\<forall>i<n. map_of obj i \<noteq> None"
  then have "{..<n} \<subseteq> fst ` set obj"
    by (auto simp: map_of_eq_None_iff)
  then have "fst ` set obj = {..<n}" using assms(2) by auto
  then have "card (set (map fst obj)) = n" by simp
  then show "length obj = n"
    using distinct_card [OF assms(1)] by simp
qed

lemma no_discard_moveCard:
  assumes "\<forall>i. map_of (assignments h) i \<noteq> Some Discard" "toZone \<noteq> Zone Discard"
  shows "\<forall>i. map_of (assignments (moveCard idx toZone h)) i \<noteq> Some Discard"
  using assms by (cases toZone) (auto simp: assignments_moveCard update_conv' delete_conv')

lemma no_discard_perform_all_z:
  "\<forall>i. map_of (assignments h) i \<noteq> Some Discard \<Longrightarrow> \<forall>ge \<in> set zs. opening_gesture_z ge \<Longrightarrow>
   \<forall>i. map_of (assignments (perform_all_z zs h)) i \<noteq> Some Discard"
  unfolding perform_all_z_def
proof (induction zs arbitrary: h)
  case Nil
  then show ?case by simp
next
  case (Cons ge zs)
  obtain idx toZone where ge: "ge = MoveCard idx toZone" by (cases ge)
  have "\<forall>i. map_of (assignments (perform_z h ge)) i \<noteq> Some Discard"
    using Cons.prems ge by (simp add: no_discard_moveCard)
  then show ?case using Cons.IH Cons.prems(2) by simp
qed

lemma applyState_z_assignments:
  "phase state = InitHuman \<or> phase state = HumanTurn \<Longrightarrow> assignments (applyState_z state h0) = []"
  by (auto simp: applyState_z_def Let_def setStatus_a_def)

lemma opening_zones_iff:
  assumes "phase state = InitHuman" "\<forall>ge \<in> set zs. opening_gesture_z ge"
  shows "(\<not> confirmDisabled_a (perform_all_z zs (applyState_z state h0)))
     = ((\<forall>i<length (cards state). \<exists>r. map_of (assignments (perform_all_z zs (applyState_z state h0))) i = Some (Row r))
        \<and> length (filter (\<lambda>i. map_of (assignments (perform_all_z zs (applyState_z state h0))) i = Some (Row Front))
                    [0..<length (cards state)]) \<le> 3)"
    and "fst (validateAssignments_z (perform_all_z zs (applyState_z state h0)))
     = (\<not> confirmDisabled_a (perform_all_z zs (applyState_z state h0)))"
proof -
  let ?h = "perform_all_z zs (applyState_z state h0)"
  let ?al = "assignments ?h"
  let ?n = "length (cards state)"
  have p: "placing_z state ?h"
    using assms(1) by (intro placing_z_perform_all placing_z_applyState) simp
  then have d: "distinct (map fst ?al)" and s: "fst ` set ?al \<subseteq> {..<?n}"
    and dis: "confirmDisabled_a ?h = (\<not> valid_z ?h)"
    and c: "currentCards_a ?h = cards state" and i: "isInitial_a ?h"
    using assms(1) by (simp_all add: placing_z_def)
  have nd: "\<forall>i. map_of ?al i \<noteq> Some Discard"
    using assms by (intro no_discard_perform_all_z) (simp_all add: applyState_z_assignments)
  have rows: "(map_of ?al i \<noteq> None) = (\<exists>r. map_of ?al i = Some (Row r))" for i
  proof (cases "map_of ?al i")
    case None
    then show ?thesis by simp
  next
    case (Some v)
    then have "v \<noteq> Discard" using nd by auto
    then obtain r where "v = Row r" by (cases v) auto
    then show ?thesis using Some by simp
  qed
  have "(\<not> confirmDisabled_a ?h)
      = (length ?al = ?n \<and> count_list (map snd ?al) (Row Front) \<le> 3)"
    using dis c i by (simp add: valid_z_def)
  also have "\<dots> = ((\<forall>i<?n. map_of ?al i \<noteq> None)
       \<and> length (filter (\<lambda>i. map_of ?al i = Some (Row Front)) [0..<?n]) \<le> 3)"
    using keys_all_iff [OF d s] count_values_filter [OF d s, of "Row Front"] by simp
  finally show "(\<not> confirmDisabled_a ?h)
     = ((\<forall>i<?n. \<exists>r. map_of ?al i = Some (Row r))
        \<and> length (filter (\<lambda>i. map_of ?al i = Some (Row Front)) [0..<?n]) \<le> 3)"
    by (simp only: rows)
  have "length ?al \<ge> ?n \<Longrightarrow> length ?al = ?n"
    using keys_full(2) [OF d s] by simp
  then show "fst (validateAssignments_z ?h) = (\<not> confirmDisabled_a ?h)"
    using dis c i by (auto simp: validateAssignments_z_fst valid_z_def)
qed

subsection \<open>The hint and the button of the rows version, for any gestures\<close>

lemma row_full_neq [simp]:
  "row_full r \<noteq> []"
  "row_full r \<noteq> ''The last card will be automatically discarded.''"
  by (cases r; simp add: row_full_def capitalise_row_name)+

lemma hint_update_pending: "isActionMode g \<Longrightarrow> hint (updateConfirmButton g) = pending_hint g"
  by (simp add: hint_updateConfirmButton pending_hint_def)

lemma pending_hint_update [simp]: "pending_hint (updateConfirmButton g) = pending_hint g"
  by (simp add: pending_hint_def)

lemma hint_fits_update:
  assumes "isActionMode g" "length (placed (boardPlacements g)) \<le> length (currentCards g)"
  shows "hint_fits (updateConfirmButton g)"
  using assms
  by (auto simp: hint_fits_def hint_update_pending updateConfirmButton_disabled required_def
        pending_hint_def Let_def)

lemma hint_fits_setHint_row_full: "hint_fits g \<Longrightarrow> hint_fits (setHint (row_full r) g)"
  by (auto simp: hint_fits_def setHint_def)

lemma length_le_of_in_range:
  assumes "distinct ps" "\<forall>i \<in> set ps. i < n"
  shows "length ps \<le> n"
proof -
  have "card (set ps) \<le> card {..<n}"
    using assms(2) by (intro card_mono) auto
  then show ?thesis using assms(1) by (simp add: distinct_card)
qed

lemma turn_refreshUI:
  assumes "isActionMode g" "currentCards g = cards state" "isInitial g = (phase state = InitHuman)"
    "distinct (placed (boardPlacements g))" "hint_fits g"
  shows "turn state (refreshUI g)"
proof (cases "renderPlayerBoard_throws g")
  case True
  then show ?thesis using assms by (simp add: refreshUI_def turn_def)
next
  case False
  then have "\<forall>i \<in> set (placed (boardPlacements g)). i < length (currentCards g)"
    by (auto simp: renderPlayerBoard_throws_def)
  then have "length (placed (boardPlacements g)) \<le> length (currentCards g)"
    using assms(4) by (intro length_le_of_in_range)
  then have "hint_fits (updateConfirmButton g)"
    using assms(1) by (rule hint_fits_update [rotated])
  then show ?thesis using False assms by (simp add: refreshUI_def turn_def)
qed

lemma hint_fits_cong:
  "hint g' = hint g \<Longrightarrow> confirmDisabled g' = confirmDisabled g \<Longrightarrow> isInitial g' = isInitial g
   \<Longrightarrow> hint_fits g' = hint_fits g"
  by (simp add: hint_fits_def)

lemma turn_placeCardOnRow:
  assumes "turn state g"
  shows "turn state (placeCardOnRow idx r g)"
proof (cases "currentServerBoard g")
  case None
  then show ?thesis using assms by (simp add: placeCardOnRow_def)
next
  case (Some board)
  show ?thesis
  proof (cases "int (length (getRow r board)) + int (length (getRow r (boardPlacements g))) \<ge> max_row r")
    case True
    then have "placeCardOnRow idx r g = setHint (row_full r) g"
      using Some by (simp add: placeCardOnRow_cases row_full_def)
    then show ?thesis
      using assms hint_fits_setHint_row_full [of g r] by (simp add: turn_def) (simp add: setHint_def)
  next
    case False
    let ?g = "g\<lparr>boardPlacements := push_row idx r (boardPlacements g)\<rparr>"
    have "hint_fits ?g = hint_fits g" by (rule hint_fits_cong) simp_all
    then have "turn state (refreshUI ?g)"
      using assms by (intro turn_refreshUI) (simp_all add: turn_def distinct_push)
    then show ?thesis using False Some by (simp add: placeCardOnRow_cases)
  qed
qed

lemma turn_returnCardToHand:
  assumes "turn state g"
  shows "turn state (returnCardToHand idx g)"
proof -
  let ?g = "g\<lparr>boardPlacements := removeFromPlacements idx (boardPlacements g)\<rparr>"
  have "hint_fits ?g = hint_fits g" by (rule hint_fits_cong) simp_all
  then show ?thesis
    unfolding returnCardToHand_def
    using assms by (intro turn_refreshUI) (simp_all add: turn_def placed_removeFromPlacements)
qed

lemma turn_perform_all: "turn state g \<Longrightarrow> turn state (perform_all gs g)"
  unfolding perform_all_def
proof (induction gs arbitrary: g)
  case Nil
  then show ?case by simp
next
  case (Cons ge gs)
  have "turn state (perform g ge)"
    using Cons.prems by (cases ge) (simp_all add: turn_placeCardOnRow turn_returnCardToHand)
  then show ?case using Cons.IH by simp
qed

lemma turn_applyState:
  assumes "phase state = InitHuman \<or> phase state = HumanTurn"
  shows "turn state (applyState state g0)"
proof -
  let ?g = "g0\<lparr>gameId := Some (game_id state), currentServerBoard := Some (player_board state)\<rparr>
              \<lparr>isInitial := (phase state = InitHuman), isActionMode := True,
               currentCards := cards state, boardPlacements := Rows [] [] []\<rparr>"
  have nt: "\<not> renderPlayerBoard_throws ?g"
    by (simp add: renderPlayerBoard_throws_def placed_def)
  have "hint_fits (updateConfirmButton ?g)"
    by (rule hint_fits_update) (simp_all add: placed_def)
  then have t: "turn state (refreshUI ?g)"
    using nt by (simp add: refreshUI_def turn_def placed_def)
  have s: "turn state (setStatus msg g)" if "turn state g" for msg g
    using that by (simp add: turn_def setStatus_def hint_fits_def)
  have e: "turn state (enableBoardDrop g)" if "turn state g" for g
    using that by (simp add: turn_def enableBoardDrop_def hint_fits_def)
  show ?thesis
    unfolding applyState_def Let_def
    using assms t by (auto intro!: e s)
qed

subsection \<open>The hint of the rows version, for gestures on cards of the hand\<close>

lemma hint_current_refreshUI:
  assumes "placing state (refreshUI g)" "\<not> renderPlayerBoard_throws g" "isActionMode g"
  shows "hint_current (refreshUI g)"
  using assms by (simp add: refreshUI_def hint_current_def hint_update_pending)

lemma not_throws_of_in_range:
  assumes "currentServerBoard g \<noteq> None"
    "set (placed (boardPlacements g)) \<subseteq> {..<length (currentCards g)}"
  shows "\<not> renderPlayerBoard_throws g"
  using assms by (auto simp: renderPlayerBoard_throws_def)

lemma pending_hint_cong:
  "currentCards g' = currentCards g \<Longrightarrow> boardPlacements g' = boardPlacements g
   \<Longrightarrow> isInitial g' = isInitial g \<Longrightarrow> pending_hint g' = pending_hint g"
  by (simp add: pending_hint_def)

lemma hint_current_placeCardOnRow:
  assumes "placing state g" "hint_current g" "idx < length (cards state)"
  shows "hint_current (placeCardOnRow idx r g)"
proof -
  have b: "currentServerBoard g = Some (player_board state)"
    and f: "isActionMode g" "currentCards g = cards state" "distinct (placed (boardPlacements g))"
      "set (placed (boardPlacements g)) \<subseteq> {..<length (cards state)}"
    using assms(1) by (simp_all add: placing_def)
  show ?thesis
  proof (cases "int (length (getRow r (player_board state))) + int (length (getRow r (boardPlacements g))) \<ge> max_row r")
    case True
    then have "placeCardOnRow idx r g = setHint (row_full r) g"
      using b by (simp add: placeCardOnRow_cases row_full_def)
    then show ?thesis by (auto simp: hint_current_def setHint_def)
  next
    case False
    let ?g = "g\<lparr>boardPlacements := push_row idx r (boardPlacements g)\<rparr>"
    have "\<not> renderPlayerBoard_throws ?g"
      using b f assms(3) by (intro not_throws_of_in_range) (auto simp: set_push)
    then have "hint_current (refreshUI ?g)"
      using f(1) by (simp add: refreshUI_def hint_current_def hint_update_pending)
    then show ?thesis using False b by (simp add: placeCardOnRow_cases)
  qed
qed

lemma hint_current_returnCardToHand:
  assumes "placing state g"
  shows "hint_current (returnCardToHand idx g)"
proof -
  have b: "currentServerBoard g = Some (player_board state)"
    and f: "isActionMode g" "currentCards g = cards state"
      "set (placed (boardPlacements g)) \<subseteq> {..<length (cards state)}"
    using assms(1) by (simp_all add: placing_def)
  let ?g = "g\<lparr>boardPlacements := removeFromPlacements idx (boardPlacements g)\<rparr>"
  have "\<not> renderPlayerBoard_throws ?g"
    using b f by (intro not_throws_of_in_range) (auto simp: placed_removeFromPlacements)
  then show ?thesis
    using f(1) by (simp add: returnCardToHand_def refreshUI_def hint_current_def hint_update_pending)
qed

lemma hint_current_perform_all:
  "placing state g \<Longrightarrow> hint_current g \<Longrightarrow> \<forall>ge \<in> set gs. gesture_idx ge < length (cards state)
   \<Longrightarrow> hint_current (perform_all gs g)"
  unfolding perform_all_def
proof (induction gs arbitrary: g)
  case Nil
  then show ?case by simp
next
  case (Cons ge gs)
  have i: "gesture_idx ge < length (cards state)" using Cons.prems(3) by simp
  have p: "placing state (perform g ge)"
    using Cons.prems(1) i by (rule placing_perform)
  have h: "hint_current (perform g ge)"
    using Cons.prems(1,2) i
    by (cases ge) (simp_all add: hint_current_placeCardOnRow hint_current_returnCardToHand)
  show ?case using Cons.IH [OF p h] Cons.prems(3) by simp
qed

lemma hint_current_applyState:
  assumes "phase state = InitHuman \<or> phase state = HumanTurn"
  shows "hint_current (applyState state g0)"
proof -
  let ?g = "g0\<lparr>gameId := Some (game_id state), currentServerBoard := Some (player_board state)\<rparr>
              \<lparr>isInitial := (phase state = InitHuman), isActionMode := True,
               currentCards := cards state, boardPlacements := Rows [] [] []\<rparr>"
  have nt: "\<not> renderPlayerBoard_throws ?g"
    by (simp add: renderPlayerBoard_throws_def placed_def)
  then have t: "hint_current (refreshUI ?g)"
    by (simp add: refreshUI_def hint_current_def hint_update_pending)
  have s: "hint_current (setStatus msg g)" if "hint_current g" for msg g
    using that by (simp add: hint_current_def setStatus_def pending_hint_def)
  have e: "hint_current (enableBoardDrop g)" if "hint_current g" for g
    using that by (simp add: hint_current_def enableBoardDrop_def pending_hint_def)
  show ?thesis
    unfolding applyState_def Let_def
    using assms t by (auto intro!: e s)
qed

lemma blocked_draw_has_hint:
  assumes "placing state g" "hint_current g" "\<not> isInitial g" "confirmDisabled g"
    "length (placed (boardPlacements g)) < length (cards state)"
  shows "hint g \<noteq> []"
proof -
  have c: "currentCards g = cards state"
    and d: "int (length (placed (boardPlacements g))) \<noteq> required g"
    using assms(1,4) by (simp_all add: placing_def)
  have "pending_hint g \<noteq> []"
    using assms(3,5) c d by (auto simp: pending_hint_def required_def Let_def)
  then show ?thesis
    using assms(2) by (auto simp: hint_current_def)
qed

subsection \<open>The hint and the button of the zones version\<close>

lemma hint_fits_z_update: "hint_fits_z (updateConfirmButton_z h)"
  by (simp add: hint_fits_z_def hint_updateConfirmButton_z disabled_updateConfirmButton_z)

lemma hint_fits_z_moveCard: "hint_fits_z h \<Longrightarrow> hint_fits_z (moveCard idx toZone h)"
  by (simp add: moveCard_def hint_fits_z_update)

lemma hint_fits_z_perform_all: "hint_fits_z h \<Longrightarrow> hint_fits_z (perform_all_z zs h)"
  unfolding perform_all_z_def
proof (induction zs arbitrary: h)
  case Nil
  then show ?case by simp
next
  case (Cons ge zs)
  have "hint_fits_z (perform_z h ge)"
    using Cons.prems by (cases ge) (simp add: hint_fits_z_moveCard)
  then show ?case using Cons.IH by simp
qed

lemma hint_fits_z_applyState:
  assumes "phase state = InitHuman \<or> phase state = HumanTurn"
  shows "hint_fits_z (applyState_z state h0)"
proof -
  have s: "hint_fits_z (setStatus_a msg h)" if "hint_fits_z h" for msg h
    using that by (simp add: hint_fits_z_def setStatus_a_def)
  show ?thesis
    unfolding applyState_z_def Let_def
    using assms by (auto intro!: s hint_fits_z_update)
qed

subsection \<open>Turns whose gestures carry indices of the hand\<close>

text \<open>
  What the rows version keeps when every gesture carries an index of the hand, next to what the
  zones version keeps for any gestures. On an opening turn with five cards the confirm button
  is enabled if and only if each of the five indices is mapped to a row and at most three of
  them are mapped to the front.
\<close>

theorem opening_submittable_iff:
  assumes "phase state = InitHuman" and "length (cards state) = 5"
  shows "((\<forall>ge \<in> set gs. gesture_idx ge < 5) \<longrightarrow>
           (\<not> confirmDisabled (perform_all gs (applyState state g0)))
            = ((\<forall>i<5. \<exists>r. i \<in> set (getRow r (boardPlacements (perform_all gs (applyState state g0)))))
               \<and> length (filter (\<lambda>i. i \<in> set (front_row (boardPlacements (perform_all gs (applyState state g0)))))
                           [0..<5]) \<le> 3))
       \<and> ((\<forall>ge \<in> set zs. opening_gesture_z ge) \<longrightarrow>
           (\<not> confirmDisabled_a (perform_all_z zs (applyState_z state h0)))
            = ((\<forall>i<5. \<exists>r. map_of (assignments (perform_all_z zs (applyState_z state h0))) i = Some (Row r))
               \<and> length (filter (\<lambda>i. map_of (assignments (perform_all_z zs (applyState_z state h0))) i
                                         = Some (Row Front)) [0..<5]) \<le> 3)
           \<and> fst (validateAssignments_z (perform_all_z zs (applyState_z state h0)))
            = (\<not> confirmDisabled_a (perform_all_z zs (applyState_z state h0))))"
    (is "(?A \<longrightarrow> ?R) \<and> (?B \<longrightarrow> ?Z1 \<and> ?Z2)")
proof -
  have r: "?A \<Longrightarrow> ?R"
    using opening_rows_iff [OF assms(1), of gs g0] unfolding assms(2) .
  have z1: "?B \<Longrightarrow> ?Z1"
    using opening_zones_iff(1) [OF assms(1), of zs h0] unfolding assms(2) .
  have z2: "?B \<Longrightarrow> ?Z2"
    using opening_zones_iff(2) [OF assms(1), of zs h0] .
  show ?thesis
  proof (intro conjI impI)
    assume ?A then show ?R by (rule r)
  next
    assume ?B then show ?Z1 by (rule z1)
  next
    assume ?B then show ?Z2 by (rule z2)
  qed
qed

text \<open>
  No index is held twice and every index held is one of the hand; placing an index on a row
  with room puts it on that row exactly once and on no other row.
\<close>

theorem ledger_keys_stay_single:
  assumes "phase state = InitHuman \<or> phase state = HumanTurn"
  shows "((\<forall>ge \<in> set gs. gesture_idx ge < length (cards state))
          \<longrightarrow> distinct (placed (boardPlacements (perform_all gs (applyState state g0))))
              \<and> set (placed (boardPlacements (perform_all gs (applyState state g0))))
                  \<subseteq> {..<length (cards state)})
       \<and> distinct (map fst (assignments (perform_all_z zs (applyState_z state h0))))
       \<and> fst ` set (assignments (perform_all_z zs (applyState_z state h0))) \<subseteq> {..<length (cards state)}
       \<and> (currentServerBoard g = Some board
            \<and> int (length (getRow r board)) + int (length (getRow r (boardPlacements g))) < max_row r
          \<longrightarrow> count_list (getRow r (boardPlacements (placeCardOnRow idx r g))) idx = 1
              \<and> (\<forall>r'. r' \<noteq> r \<longrightarrow> idx \<notin> set (getRow r' (boardPlacements (placeCardOnRow idx r g)))))
       \<and> (idx < length (cards state)
          \<longrightarrow> map_of (assignments (moveCard idx (Zone d) (perform_all_z zs (applyState_z state h0)))) idx = Some d
              \<and> count_list (map fst (assignments (moveCard idx (Zone d) (perform_all_z zs (applyState_z state h0))))) idx = 1)"
proof -
  have rows: "placing state (perform_all gs (applyState state g0))"
    if "\<forall>ge \<in> set gs. gesture_idx ge < length (cards state)"
    using that assms by (intro placing_perform_all placing_applyState)
  have zones: "placing_z state (perform_all_z zs (applyState_z state h0))"
    using assms by (intro placing_z_perform_all placing_z_applyState)
  show ?thesis
    using rows zones reassign_rows [where g = g and board = board and r = r and idx = idx]
      reassign_zones [OF zones, where idx = idx and d = d]
    by (auto simp: placing_def placing_z_def)
qed

text \<open>Whenever the turn can be submitted, the submitted list names every index of the hand once.\<close>

theorem submission_covers_hand:
  assumes "phase state = InitHuman \<or> phase state = HumanTurn"
  shows "((\<forall>ge \<in> set gs. gesture_idx ge < length (cards state))
            \<and> \<not> confirmDisabled (perform_all gs (applyState state g0))
          \<longrightarrow> distinct (map fst (placements (perform_all gs (applyState state g0))))
              \<and> set (map fst (placements (perform_all gs (applyState state g0))))
                  = {..<length (cards state)})
       \<and> (fst (validateAssignments_z (perform_all_z zs (applyState_z state h0)))
          \<longrightarrow> distinct (map fst (placements_a (perform_all_z zs (applyState_z state h0))))
              \<and> set (map fst (placements_a (perform_all_z zs (applyState_z state h0))))
                  = {..<length (cards state)})"
proof -
  have rows: "placing state (perform_all gs (applyState state g0))"
    if "\<forall>ge \<in> set gs. gesture_idx ge < length (cards state)"
    using that assms by (intro placing_perform_all placing_applyState)
  have zones: "placing_z state (perform_all_z zs (applyState_z state h0))"
    using assms by (intro placing_z_perform_all placing_z_applyState)
  show ?thesis
    using placements_cover [OF rows] placements_a_cover [OF zones] by blast
qed

section \<open>The claims\<close>

text \<open>
  C1 (as amended). In the rows version, \<^verbatim>\<open>placeCardOnRow(idx, row)\<close> on a row whose committed
  cards plus pending placements have reached the size of the row (3 for the front, 5 for the
  middle and the back) changes nothing but the hint, which becomes the capitalised name of the
  row followed by \<^verbatim>\<open>row is full.\<close> In the zones and buttons versions no capacity is checked
  when a card is assigned: \<^verbatim>\<open>moveCard\<close> (for an index of the hand) and \<^verbatim>\<open>assignCard\<close> always
  write the mapping.
\<close>

theorem full_row_rejects_placement:
  "(currentServerBoard g = Some board
      \<and> max_row r \<le> int (length (getRow r board)) + int (length (getRow r (boardPlacements g)))
      \<longrightarrow> placeCardOnRow idx r g = g\<lparr>hint := capitalise (row_name r) @ '' row is full.''\<rparr>)
   \<and> (idx < length (currentCards_a h) \<longrightarrow>
        map_of (assignments (moveCard idx (Zone d) h)) idx = Some d)
   \<and> map_of (assignments (assignCard idx d h)) idx = Some d"
  by (simp add: placeCardOnRow_cases setHint_def map_of_moveCard_Zone assignments_assignCard update_conv')

text \<open>
  The fourth card on a full front row: the rows version only sets the hint, the other two
  versions write the mapping.
\<close>

theorem full_row_rejects_placement_witness:
  "boardPlacements three_in_front = Rows [0, 1, 2] [] []
   \<and> currentServerBoard three_in_front = Some (Rows [] [] [])
   \<and> placeCardOnRow 3 Front three_in_front = three_in_front\<lparr>hint := ''Front row is full.''\<rparr>
   \<and> length (currentCards_a three_in_front_z) = 5
   \<and> map_of (assignments (moveCard 3 (Zone (Row Front)) three_in_front_z)) 3 = Some (Row Front)
   \<and> map_of (assignments (assignCard 3 (Row Front) three_in_front_z)) 3 = Some (Row Front)"
proof -
  have a: "boardPlacements three_in_front = Rows [0, 1, 2] [] []"
    and b: "currentServerBoard three_in_front = Some (Rows [] [] [])"
    and c: "length (currentCards_a three_in_front_z) = 5"
    by code_simp+
  show ?thesis
    using full_row_rejects_placement [of three_in_front "Rows [] [] []" Front 3 three_in_front_z "Row Front"]
    by (simp add: a b c max_row_def capitalise_row_name)
qed

text \<open>
  The claim as stated fails for \<^verbatim>\<open>moveCard\<close>: with three cards on the front zone and an empty
  board, the front is at capacity, yet moving card 3 there changes \<^verbatim>\<open>assignments\<close> and
  leaves the hint as it was.
\<close>

theorem moveCard_at_capacity_counterexample:
  "int (count_list (map snd (assignments three_in_front_z)) (Row Front))
     + int (length (front_row (player_board opening_reply))) = max_row Front
   \<and> assignments (moveCard 3 (Zone (Row Front)) three_in_front_z) \<noteq> assignments three_in_front_z
   \<and> map_of (assignments (moveCard 3 (Zone (Row Front)) three_in_front_z)) 3 = Some (Row Front)
   \<and> hint_a (moveCard 3 (Zone (Row Front)) three_in_front_z) = hint_a three_in_front_z"
  by code_simp

text \<open>
  C2 (as amended). In the rows version, on a turn that begins with a server board within the
  row sizes, after every sequence of \<^verbatim>\<open>placeCardOnRow\<close> and \<^verbatim>\<open>returnCardToHand\<close> the cards
  committed to a row plus the pending placements on it never exceed the size of the row
  (front 3, middle 5, back 5), and the submitted list never has more than one discard.
\<close>

theorem rows_stay_within_capacity:
  assumes "phase state = InitHuman \<or> phase state = HumanTurn"
    and "\<forall>r. int (length (getRow r (player_board state))) \<le> max_row r"
  shows "currentServerBoard (perform_all gs (applyState state g0)) = Some (player_board state)
    \<and> (\<forall>r. int (length (getRow r (player_board state)))
             + int (length (getRow r (boardPlacements (perform_all gs (applyState state g0)))))
             \<le> max_row r)
    \<and> count_list (map snd (placements (perform_all gs (applyState state g0)))) Discard \<le> 1"
proof -
  have "fits (player_board state) (Rows [] [] [])"
    using assms(2) by (simp add: fits_def)
  then have "capped (player_board state) (perform_all gs (applyState state g0))"
    using assms(1) by (intro capped_perform_all capped_applyState)
  then show ?thesis
    using count_placements_Discard [of "perform_all gs (applyState state g0)"]
    by (simp add: capped_def fits_def)
qed

text \<open>A draw turn on a board with a full front row: the drop on the front is turned down.\<close>

theorem rows_stay_within_capacity_witness:
  "phase draw_reply = HumanTurn
   \<and> player_board draw_reply = Rows [Card ''Q'' ''h'', Card ''7'' ''d'', Card ''2'' ''c''] [Card ''K'' ''s''] [Card ''A'' ''s'']
   \<and> boardPlacements (perform_all all_on_board (applyState draw_reply initial)) = Rows [] [1, 2] [0]
   \<and> (\<forall>r. int (length (getRow r (player_board draw_reply)))
             + int (length (getRow r (boardPlacements (perform_all all_on_board (applyState draw_reply initial)))))
             \<le> max_row r)
   \<and> count_list (map snd (placements (perform_all all_on_board (applyState draw_reply initial)))) Discard \<le> 1"
proof -
  have p: "phase draw_reply = InitHuman \<or> phase draw_reply = HumanTurn"
    by (simp add: draw_reply_def)
  have b: "\<forall>r. int (length (getRow r (player_board draw_reply))) \<le> max_row r"
  proof
    fix r show "int (length (getRow r (player_board draw_reply))) \<le> max_row r"
      by (cases r) (simp_all add: draw_reply_def max_row_def)
  qed
  have e: "boardPlacements (perform_all all_on_board (applyState draw_reply initial)) = Rows [] [1, 2] [0]"
    by code_simp
  show ?thesis
    using rows_stay_within_capacity [OF p b, of all_on_board initial] e
    by (simp add: draw_reply_def)
qed

text \<open>
  The claim as stated fails in the zones version, which never checks a capacity when a card
  is moved: four moves onto the front zone leave four entries on a row of size 3.
\<close>

theorem zones_exceed_capacity_counterexample:
  "assignments four_in_front_z = [(0, Row Front), (1, Row Front), (2, Row Front), (3, Row Front)]
   \<and> \<not> int (count_list (map snd (assignments four_in_front_z)) (Row Front))
         + int (length (front_row (player_board opening_reply))) \<le> max_row Front"
  by code_simp

text \<open>
  C3 (as amended). In the rows version, on a draw turn that is open, when every index of the
  hand but one index \<open>k\<close> is placed on a row (each once), the confirm button is enabled and the
  submitted list is the placed indices row by row, followed by \<open>(k, discard)\<close>. The zones and
  buttons versions do not accept that state: while fewer entries than cards are assigned,
  \<^verbatim>\<open>validateAssignments\<close> fails and the confirm button is disabled.
\<close>

theorem last_card_is_discarded:
  "(isActionMode g \<and> \<not> isInitial g \<and> distinct (placed (boardPlacements g))
      \<and> k < length (currentCards g)
      \<and> set (placed (boardPlacements g)) = {..<length (currentCards g)} - {k}
      \<longrightarrow> \<not> confirmDisabled (updateConfirmButton g)
          \<and> placements g =
                map (\<lambda>idx. (idx, Row Front)) (front_row (boardPlacements g))
                @ map (\<lambda>idx. (idx, Row Middle)) (middle_row (boardPlacements g))
                @ map (\<lambda>idx. (idx, Row Back)) (back_row (boardPlacements g))
                @ [(k, Discard)])
   \<and> (length (Object_keys (assignments h)) < length (currentCards_a h)
      \<longrightarrow> \<not> fst (validateAssignments_z h) \<and> confirmDisabled_a (updateConfirmButton_z h)
          \<and> \<not> fst (validateAssignments_b h) \<and> confirmDisabled_a (updateConfirmButton_b h))"
proof -
  have z: "\<not> fst (validateAssignments_z h) \<and> confirmDisabled_a (updateConfirmButton_z h)
           \<and> \<not> fst (validateAssignments_b h) \<and> confirmDisabled_a (updateConfirmButton_b h)"
    if "length (Object_keys (assignments h)) < length (currentCards_a h)"
    using that
    by (simp add: validateAssignments_z_def validateAssignments_b_def
          updateConfirmButton_z_def updateConfirmButton_b_def Let_def)
  show ?thesis
    using auto_discard [of g k] z by (auto simp: tagged_def)
qed

text \<open>
  The three-card deal with \<open>{0: middle, 1: back}\<close> and card 2 left in the hand: the rows version
  submits \<open>(0, middle), (1, back), (2, discard)\<close>; the other two versions refuse to submit.
\<close>

theorem last_card_is_discarded_witness:
  "isActionMode two_placed \<and> \<not> isInitial two_placed
   \<and> length (currentCards two_placed) = 3
   \<and> boardPlacements two_placed = Rows [] [0] [1]
   \<and> \<not> confirmDisabled two_placed
   \<and> \<not> confirmDisabled (updateConfirmButton two_placed)
   \<and> placements two_placed = [(0, Row Middle), (1, Row Back), (2, Discard)]
   \<and> length (Object_keys (assignments two_assigned)) = 2
   \<and> length (currentCards_a two_assigned) = 3
   \<and> \<not> fst (validateAssignments_z two_assigned)
   \<and> \<not> fst (validateAssignments_b two_assigned)"
proof -
  have a: "isActionMode two_placed" "\<not> isInitial two_placed" "length (currentCards two_placed) = 3"
    "boardPlacements two_placed = Rows [] [0] [1]" "\<not> confirmDisabled two_placed"
    "length (Object_keys (assignments two_assigned)) = 2" "length (currentCards_a two_assigned) = 3"
    by code_simp+
  have s: "{..<3} - {2} = {0, 1 :: nat}" by auto
  show ?thesis
    using last_card_is_discarded [of two_placed 2 two_assigned] a
    by (simp add: placed_def s insert_commute)
qed

text \<open>
  The claim as stated fails for the version with an explicit discard zone: with
  \<open>{0: middle, 1: back}\<close> and index 2 unassigned, \<^verbatim>\<open>validateAssignments\<close> returns false.
\<close>

theorem explicit_discard_required_counterexample:
  "\<not> isInitial_a two_assigned \<and> length (currentCards_a two_assigned) = 3
   \<and> assignments two_assigned = [(0, Row Middle), (1, Row Back)]
   \<and> \<not> fst (validateAssignments_z two_assigned)
   \<and> hint_a (snd (validateAssignments_z two_assigned)) = ''Place all cards before confirming.''
   \<and> confirmDisabled_a two_assigned"
  by code_simp

text \<open>
  C4. On an opening turn with five cards the confirm button should be enabled if and only if
  all five indices are mapped to a row with at most three on the front. The rows version
  breaks this once a drop carries a number that is no index of the hand: \<^verbatim>\<open>placeCardOnRow\<close>
  stores the number, drawing the board then throws, and the confirm button is no longer
  updated. After a complete turn, a drop of 7 on the middle row and card 0 dragged back to the
  hand, the button is still enabled with index 0 unplaced; with the drop of 7 made first and
  all five cards placed after it, the button stays disabled.
\<close>

theorem stale_button_after_foreign_drop:
  "length (cards opening_reply) = 5
   \<and> boardPlacements (perform_all stuck (applyState opening_reply initial)) = Rows [1, 2] [3, 7] [4]
   \<and> \<not> confirmDisabled (perform_all stuck (applyState opening_reply initial))
   \<and> 0 \<notin> set (placed (boardPlacements (perform_all stuck (applyState opening_reply initial))))
   \<and> boardPlacements (perform_all never_enabled (applyState opening_reply initial))
       = Rows [0, 1, 2] [7, 3] [4]
   \<and> confirmDisabled (perform_all never_enabled (applyState opening_reply initial))"
  by code_simp

text \<open>
  C5. The keys of the pending placements should stay within \<open>[0, hand.length)\<close>. The rows
  version breaks this: \<^verbatim>\<open>placeCardOnRow\<close> checks no range, so a drop that carries 7 on a
  five-card turn is stored on the row. The zones version turns the same drop down, since
  \<^verbatim>\<open>moveCard\<close> finds no card element for it.
\<close>

theorem foreign_drop_is_stored:
  "length (cards opening_reply) = 5
   \<and> boardPlacements (perform_all [PlaceCardOnRow 7 Middle] (applyState opening_reply initial))
       = Rows [] [7] []
   \<and> 7 \<in> set (placed (boardPlacements (perform_all [PlaceCardOnRow 7 Middle] (applyState opening_reply initial))))
   \<and> \<not> set (placed (boardPlacements (perform_all [PlaceCardOnRow 7 Middle] (applyState opening_reply initial))))
         \<subseteq> {..<length (cards opening_reply)}
   \<and> assignments (perform_all_z [MoveCard 7 (Zone (Row Middle))] (applyState_z opening_reply initial_a)) = []"
proof -
  have a: "length (cards opening_reply) = 5"
    "boardPlacements (perform_all [PlaceCardOnRow 7 Middle] (applyState opening_reply initial))
       = Rows [] [7] []"
    "assignments (perform_all_z [MoveCard 7 (Zone (Row Middle))] (applyState_z opening_reply initial_a)) = []"
    by (code_simp, code_simp, code_simp)
  show ?thesis by (simp add: a placed_def)
qed



text \<open>
  C7. When the reply to a submission carries an error, the pending placements and the hand
  are as before the submission, the confirm button is enabled again (in the rows version the
  turn is open again and the rows accept drops again), the status bar shows \<^verbatim>\<open>Error: \<close>
  followed by the server's message, and the loading overlay is hidden. This holds for all
  three versions.
\<close>

theorem rejected_submission_keeps_ledger:
  "(fetchPlay (gameId g) (placements g) = Replied state \<and> truthy (error state)
      \<longrightarrow> boardPlacements (submitPlay msg fetchPlay g) = boardPlacements g
          \<and> currentCards (submitPlay msg fetchPlay g) = currentCards g
          \<and> \<not> confirmDisabled (submitPlay msg fetchPlay g)
          \<and> isActionMode (submitPlay msg fetchPlay g)
          \<and> boardDrop (submitPlay msg fetchPlay g)
          \<and> statusText (submitPlay msg fetchPlay g) = ''Error: '' @ the (error state)
          \<and> \<not> statusHidden (submitPlay msg fetchPlay g)
          \<and> \<not> loading (submitPlay msg fetchPlay g))
   \<and> (fst (validateAssignments_z h) \<and> fetchPlay (gameId_a h) (placements_a h) = Replied state
        \<and> truthy (error state)
      \<longrightarrow> assignments (submitPlay_z fetchPlay h) = assignments h
          \<and> currentCards_a (submitPlay_z fetchPlay h) = currentCards_a h
          \<and> \<not> confirmDisabled_a (submitPlay_z fetchPlay h)
          \<and> statusText_a (submitPlay_z fetchPlay h) = ''Error: '' @ the (error state)
          \<and> \<not> statusHidden_a (submitPlay_z fetchPlay h)
          \<and> \<not> loading_a (submitPlay_z fetchPlay h))
   \<and> (fst (validateAssignments_b h) \<and> fetchPlay (gameId_a h) (placements_a h) = Replied state
        \<and> truthy (error state)
      \<longrightarrow> assignments (submitPlay_b fetchPlay h) = assignments h
          \<and> currentCards_a (submitPlay_b fetchPlay h) = currentCards_a h
          \<and> \<not> confirmDisabled_a (submitPlay_b fetchPlay h)
          \<and> statusText_a (submitPlay_b fetchPlay h) = ''Error: '' @ the (error state)
          \<and> \<not> statusHidden_a (submitPlay_b fetchPlay h)
          \<and> \<not> loading_a (submitPlay_b fetchPlay h))"
proof -
  have rows: "submitPlay msg fetchPlay g
      = (reopen (''Error: '' @ the (error state))
           (disableBoardDrop (g\<lparr>loading := True, confirmDisabled := True, isActionMode := False\<rparr>)))
        \<lparr>loading := False\<rparr>"
    if "fetchPlay (gameId g) (placements g) = Replied state" "truthy (error state)"
    using that by (simp add: submitPlay_def Let_def)
  have z: "submitPlay_z fetchPlay h
      = (setStatus_a (''Error: '' @ the (error state))
           ((setHint_a [] h)\<lparr>loading_a := True, confirmDisabled_a := True\<rparr>))
        \<lparr>confirmDisabled_a := False, loading_a := False\<rparr>"
    if "fst (validateAssignments_z h)" "fetchPlay (gameId_a h) (placements_a h) = Replied state"
      "truthy (error state)"
  proof -
    have "validateAssignments_z h = (True, setHint_a [] h)"
      using that(1) by (auto simp: validateAssignments_z_def Let_def split: if_splits)
    then show ?thesis
      using that(2,3) by (simp add: submitPlay_z_def Let_def setHint_a_def placements_a_def)
  qed
  have b: "submitPlay_b fetchPlay h
      = (setStatus_a (''Error: '' @ the (error state))
           ((setHint_a [] h)\<lparr>loading_a := True, confirmDisabled_a := True\<rparr>))
        \<lparr>confirmDisabled_a := False, loading_a := False\<rparr>"
    if "fst (validateAssignments_b h)" "fetchPlay (gameId_a h) (placements_a h) = Replied state"
      "truthy (error state)"
  proof -
    have "validateAssignments_b h = (True, setHint_a [] h)"
      using that(1) by (auto simp: validateAssignments_b_def Let_def split: if_splits)
    then show ?thesis
      using that(2,3) by (simp add: submitPlay_b_def Let_def setHint_a_def placements_a_def)
  qed
  show ?thesis
    using rows z b
    by (simp add: reopen_def setStatus_def enableBoardDrop_def disableBoardDrop_def
          setStatus_a_def setHint_a_def)
qed

text \<open>A rejected submission of the three-card deal, in each version.\<close>

theorem rejected_submission_keeps_ledger_witness:
  "truthy (error rejected_reply)
   \<and> boardPlacements two_placed = Rows [] [0] [1]
   \<and> boardPlacements (submitPlay [] (\<lambda>gid ps. Replied rejected_reply) two_placed) = Rows [] [0] [1]
   \<and> \<not> confirmDisabled (submitPlay [] (\<lambda>gid ps. Replied rejected_reply) two_placed)
   \<and> statusText (submitPlay [] (\<lambda>gid ps. Replied rejected_reply) two_placed) = ''Error: Invalid placements''
   \<and> fst (validateAssignments_z draw_done)
   \<and> fst (validateAssignments_b draw_done)
   \<and> assignments draw_done = [(2, Row Back), (0, Discard), (1, Row Front)]
   \<and> assignments (submitPlay_z (\<lambda>gid ps. Replied rejected_reply) draw_done)
       = [(2, Row Back), (0, Discard), (1, Row Front)]
   \<and> assignments (submitPlay_b (\<lambda>gid ps. Replied rejected_reply) draw_done)
       = [(2, Row Back), (0, Discard), (1, Row Front)]
   \<and> \<not> confirmDisabled_a (submitPlay_z (\<lambda>gid ps. Replied rejected_reply) draw_done)
   \<and> statusText_a (submitPlay_z (\<lambda>gid ps. Replied rejected_reply) draw_done) = ''Error: Invalid placements''"
proof -
  have a: "truthy (error rejected_reply)" "boardPlacements two_placed = Rows [] [0] [1]"
    "fst (validateAssignments_z draw_done)" "fst (validateAssignments_b draw_done)"
    "assignments draw_done = [(2, Row Back), (0, Discard), (1, Row Front)]"
    "the (error rejected_reply) = ''Invalid placements''"
    by code_simp+
  show ?thesis
    using rejected_submission_keeps_ledger [where fetchPlay = "\<lambda>gid ps. Replied rejected_reply"
        and g = two_placed and state = rejected_reply and h = draw_done and msg = "[]"] a
    by simp
qed

text \<open>
  C8 (as amended). On every state reached by gestures on a turn of the rows version, whatever
  the drops carried: on the opening turn an empty hint implies that the confirm button is
  enabled, and while the button is enabled the hint is empty or the \<^verbatim>\<open>row is full.\<close>
  message of a drop that was turned down; on a draw turn the button is enabled only with a
  hint, \<^verbatim>\<open>The last card will be automatically discarded.\<close> or a \<^verbatim>\<open>row is full.\<close> message,
  and whenever the hint is \<^verbatim>\<open>The last card will be automatically discarded.\<close> the button is
  enabled; and when every gesture carried an index of the hand, a disabled button with a card
  still in the hand comes with a hint. On every state reached by drops on a turn of the zones
  version: when every card is assigned the hint is empty exactly when the button is enabled,
  and while a card is unassigned the button is disabled.
\<close>

theorem hint_and_button_on_a_turn:
  assumes "phase state = InitHuman \<or> phase state = HumanTurn"
  shows "(phase state = InitHuman \<longrightarrow>
            (hint (perform_all gs (applyState state g0)) = []
               \<longrightarrow> \<not> confirmDisabled (perform_all gs (applyState state g0)))
            \<and> (\<not> confirmDisabled (perform_all gs (applyState state g0))
               \<longrightarrow> hint (perform_all gs (applyState state g0)) = []
                   \<or> (\<exists>r. hint (perform_all gs (applyState state g0))
                            = capitalise (row_name r) @ '' row is full.'')))
       \<and> (phase state = HumanTurn \<longrightarrow>
            (\<not> confirmDisabled (perform_all gs (applyState state g0))
               \<longrightarrow> hint (perform_all gs (applyState state g0))
                     = ''The last card will be automatically discarded.''
                   \<or> (\<exists>r. hint (perform_all gs (applyState state g0))
                            = capitalise (row_name r) @ '' row is full.''))
            \<and> (hint (perform_all gs (applyState state g0))
                  = ''The last card will be automatically discarded.''
               \<longrightarrow> \<not> confirmDisabled (perform_all gs (applyState state g0)))
            \<and> ((\<forall>ge \<in> set gs. gesture_idx ge < length (cards state))
                 \<and> confirmDisabled (perform_all gs (applyState state g0))
                 \<and> length (placed (boardPlacements (perform_all gs (applyState state g0))))
                      < length (cards state)
               \<longrightarrow> hint (perform_all gs (applyState state g0)) \<noteq> []))
       \<and> (length (Object_keys (assignments (perform_all_z zs (applyState_z state h0))))
            = length (currentCards_a (perform_all_z zs (applyState_z state h0)))
          \<longrightarrow> (hint_a (perform_all_z zs (applyState_z state h0)) = [])
               = (\<not> confirmDisabled_a (perform_all_z zs (applyState_z state h0))))
       \<and> (length (Object_keys (assignments (perform_all_z zs (applyState_z state h0))))
            \<noteq> length (currentCards_a (perform_all_z zs (applyState_z state h0)))
          \<longrightarrow> confirmDisabled_a (perform_all_z zs (applyState_z state h0)))"
proof -
  let ?g = "perform_all gs (applyState state g0)"
  let ?h = "perform_all_z zs (applyState_z state h0)"
  have t: "turn state ?g"
    using assms by (intro turn_perform_all turn_applyState)
  then have i: "isInitial ?g = (phase state = InitHuman)" and f: "hint_fits ?g"
    by (simp_all add: turn_def)
  have first_turn: "(hint ?g = [] \<longrightarrow> \<not> confirmDisabled ?g)
      \<and> (\<not> confirmDisabled ?g \<longrightarrow> hint ?g = [] \<or> (\<exists>r. hint ?g = capitalise (row_name r) @ '' row is full.''))"
    if "phase state = InitHuman"
    using that i f by (simp add: hint_fits_def row_full_def)
  have later_turn: "(\<not> confirmDisabled ?g \<longrightarrow>
        hint ?g = ''The last card will be automatically discarded.''
        \<or> (\<exists>r. hint ?g = capitalise (row_name r) @ '' row is full.''))
      \<and> (hint ?g = ''The last card will be automatically discarded.'' \<longrightarrow> \<not> confirmDisabled ?g)"
    if "phase state = HumanTurn"
    using that i f by (simp add: hint_fits_def row_full_def)
  have blocked: "hint ?g \<noteq> []"
    if "phase state = HumanTurn" "\<forall>ge \<in> set gs. gesture_idx ge < length (cards state)"
      "confirmDisabled ?g" "length (placed (boardPlacements ?g)) < length (cards state)"
  proof -
    have p: "placing state ?g"
      using assms that(2) by (intro placing_perform_all placing_applyState)
    have c: "hint_current ?g"
      using placing_applyState [OF assms] hint_current_applyState [OF assms] that(2)
      by (rule hint_current_perform_all)
    have "\<not> isInitial ?g" using i that(1) by simp
    with p c that(3,4) show ?thesis by (intro blocked_draw_has_hint)
  qed
  have z: "hint_fits_z ?h"
    using assms by (intro hint_fits_z_perform_all hint_fits_z_applyState)
  show ?thesis
    using first_turn later_turn blocked z unfolding hint_fits_z_def by blast
qed

text \<open>
  A complete opening turn, a draw turn with one card left, a draw turn with two cards left,
  and a complete draw turn of the zones version.
\<close>

theorem hint_and_button_on_a_turn_witness:
  "hint (perform_all opening_done (applyState opening_reply initial)) = []
   \<and> \<not> confirmDisabled (perform_all opening_done (applyState opening_reply initial))
   \<and> hint (perform_all [PlaceCardOnRow 0 Middle, PlaceCardOnRow 1 Back] (applyState draw_reply initial))
       = ''The last card will be automatically discarded.''
   \<and> \<not> confirmDisabled (perform_all [PlaceCardOnRow 0 Middle, PlaceCardOnRow 1 Back] (applyState draw_reply initial))
   \<and> confirmDisabled (perform_all [PlaceCardOnRow 0 Middle] (applyState draw_reply initial))
   \<and> boardPlacements (perform_all [PlaceCardOnRow 0 Middle] (applyState draw_reply initial)) = Rows [] [0] []
   \<and> hint (perform_all [PlaceCardOnRow 0 Middle] (applyState draw_reply initial)) \<noteq> []
   \<and> length (Object_keys (assignments (perform_all_z draw_done_z (applyState_z draw_reply initial_a))))
       = length (currentCards_a (perform_all_z draw_done_z (applyState_z draw_reply initial_a)))
   \<and> \<not> confirmDisabled_a (perform_all_z draw_done_z (applyState_z draw_reply initial_a))
   \<and> hint_a (perform_all_z draw_done_z (applyState_z draw_reply initial_a)) = []"
proof -
  have p: "phase opening_reply = InitHuman \<or> phase opening_reply = HumanTurn"
    "phase draw_reply = InitHuman \<or> phase draw_reply = HumanTurn"
    "phase opening_reply = InitHuman" "phase draw_reply = HumanTurn"
    "length (cards draw_reply) = 3"
    by (simp_all add: opening_reply_def draw_reply_def)
  have a1: "hint (perform_all opening_done (applyState opening_reply initial)) = []"
    by code_simp
  have a2: "hint (perform_all [PlaceCardOnRow 0 Middle, PlaceCardOnRow 1 Back] (applyState draw_reply initial))
       = ''The last card will be automatically discarded.''"
    by code_simp
  have a3: "confirmDisabled (perform_all [PlaceCardOnRow 0 Middle] (applyState draw_reply initial))"
    by code_simp
  have a4: "boardPlacements (perform_all [PlaceCardOnRow 0 Middle] (applyState draw_reply initial)) = Rows [] [0] []"
    by code_simp
  have a5: "length (Object_keys (assignments (perform_all_z draw_done_z (applyState_z draw_reply initial_a))))
       = length (currentCards_a (perform_all_z draw_done_z (applyState_z draw_reply initial_a)))"
    by code_simp
  have a6: "\<not> confirmDisabled_a (perform_all_z draw_done_z (applyState_z draw_reply initial_a))"
    by code_simp
  have r: "\<forall>ge \<in> set [PlaceCardOnRow 0 Middle]. gesture_idx ge < length (cards draw_reply)"
    by (simp add: p(5))
  have l: "length (placed (boardPlacements (perform_all [PlaceCardOnRow 0 Middle] (applyState draw_reply initial))))
      < length (cards draw_reply)"
    by (simp add: a4 placed_def p(5))
  note t1 = hint_and_button_on_a_turn [OF p(1), of opening_done initial "[]" initial_a]
  note t2 = hint_and_button_on_a_turn [OF p(2), of "[PlaceCardOnRow 0 Middle, PlaceCardOnRow 1 Back]"
               initial draw_done_z initial_a]
  note t3 = hint_and_button_on_a_turn [OF p(2), of "[PlaceCardOnRow 0 Middle]" initial "[]" initial_a]
  have b1: "\<not> confirmDisabled (perform_all opening_done (applyState opening_reply initial))"
    using t1 p(3) a1 by blast
  have b2: "\<not> confirmDisabled (perform_all [PlaceCardOnRow 0 Middle, PlaceCardOnRow 1 Back] (applyState draw_reply initial))"
    using t2 p(4) a2 by blast
  have b3: "hint (perform_all [PlaceCardOnRow 0 Middle] (applyState draw_reply initial)) \<noteq> []"
    using t3 p(4) r a3 l by blast
  have b4: "hint_a (perform_all_z draw_done_z (applyState_z draw_reply initial_a)) = []"
    using t2 a5 a6 by blast
  show ?thesis by (intro conjI a1 b1 a2 b2 a3 a4 b3 a5 a6 b4)
qed

text \<open>
  The claim as stated fails in both directions. With a hint while the turn can be submitted: a
  draw turn of the rows version with one card left, and a complete opening turn after a drop
  on the full front row. With no hint while the turn cannot be submitted: a draw turn of the
  rows version with all three cards on the board, the same turn after a drop that carried 7
  and two cards dragged back to the hand, and a draw turn of the zones version after a card
  was dragged back to the pool.
\<close>

theorem hint_and_submittable_counterexample:
  "\<not> confirmDisabled two_placed
   \<and> hint two_placed = ''The last card will be automatically discarded.''
   \<and> \<not> confirmDisabled (perform_all turned_down (applyState opening_reply initial))
   \<and> hint (perform_all turned_down (applyState opening_reply initial)) = ''Front row is full.''
   \<and> boardPlacements (perform_all all_three_placed (applyState draw_reply initial)) = Rows [] [0] [1, 2]
   \<and> confirmDisabled (perform_all all_three_placed (applyState draw_reply initial))
   \<and> hint (perform_all all_three_placed (applyState draw_reply initial)) = []
   \<and> boardPlacements (perform_all draw_foreign (applyState draw_reply initial)) = Rows [] [7] [2]
   \<and> confirmDisabled (perform_all draw_foreign (applyState draw_reply initial))
   \<and> hint (perform_all draw_foreign (applyState draw_reply initial)) = []
   \<and> confirmDisabled_a (perform_all_z draw_undone_z (applyState_z draw_reply initial_a))
   \<and> hint_a (perform_all_z draw_undone_z (applyState_z draw_reply initial_a)) = []"
  by code_simp

text \<open>
  C9. The submitted list should name every index of the hand exactly once whenever the turn
  can be submitted. The rows version breaks this after a drop that carries 7: with the
  confirm button still enabled, \<^verbatim>\<open>submitPlay\<close> builds a list that names 7 and not 0.
\<close>

theorem foreign_drop_is_submitted:
  "length (cards opening_reply) = 5
   \<and> \<not> confirmDisabled (perform_all stuck (applyState opening_reply initial))
   \<and> placements (perform_all stuck (applyState opening_reply initial))
       = [(1, Row Front), (2, Row Front), (3, Row Middle), (7, Row Middle), (4, Row Back)]
   \<and> 0 \<notin> set (map fst (placements (perform_all stuck (applyState opening_reply initial))))
   \<and> 7 \<in> set (map fst (placements (perform_all stuck (applyState opening_reply initial))))"
proof -
  have a: "length (cards opening_reply) = 5"
    "\<not> confirmDisabled (perform_all stuck (applyState opening_reply initial))"
    "placements (perform_all stuck (applyState opening_reply initial))
       = [(1, Row Front), (2, Row Front), (3, Row Middle), (7, Row Middle), (4, Row Back)]"
    by (code_simp, code_simp, code_simp)
  show ?thesis by (simp add: a)
qed

text \<open>
  C10. Every mutation is local to its card index: placing or assigning card \<open>i\<close>, or returning it
  to the hand or the pool, leaves the entry of every other card \<open>j\<close> as it was. In the rows
  version \<open>j\<close> occurs in each row list as often as before; in the zones and buttons versions
  \<^verbatim>\<open>assignments[j]\<close> is unchanged.
\<close>

theorem mutation_is_local:
  "j \<noteq> i \<Longrightarrow>
   count_list (getRow r' (boardPlacements (placeCardOnRow i r g))) j
     = count_list (getRow r' (boardPlacements g)) j
   \<and> count_list (getRow r' (boardPlacements (returnCardToHand i g))) j
     = count_list (getRow r' (boardPlacements g)) j
   \<and> map_of (assignments (moveCard i toZone h)) j = map_of (assignments h) j
   \<and> map_of (assignments (assignCard i d h)) j = map_of (assignments h) j"
  by (simp add: placeCardOnRow_frame returnCardToHand_frame moveCard_frame assignCard_frame)

theorem mutation_is_local_witness:
  "boardPlacements two_placed = Rows [] [0] [1]
   \<and> boardPlacements (placeCardOnRow 0 Back two_placed) = Rows [] [] [1, 0]
   \<and> count_list (getRow Back (boardPlacements (placeCardOnRow 0 Back two_placed))) 1 = 1
   \<and> count_list (getRow Back (boardPlacements (returnCardToHand 0 two_placed))) 1 = 1
   \<and> map_of (assignments (moveCard 0 Pool two_assigned)) 1 = Some (Row Back)
   \<and> map_of (assignments (assignCard 0 Discard two_assigned)) 1 = Some (Row Back)"
proof -
  have ne: "(1::nat) \<noteq> 0" by simp
  have a: "boardPlacements two_placed = Rows [] [0] [1]" by code_simp
  have b: "boardPlacements (placeCardOnRow 0 Back two_placed) = Rows [] [] [1, 0]" by code_simp
  have c: "map_of (assignments two_assigned) 1 = Some (Row Back)" by code_simp
  show ?thesis
    using mutation_is_local [OF ne, of Back Back two_placed Pool two_assigned Discard] a b c
    by simp
qed

end
